theory Spec2Isabelle
  imports Complex_Main "HOL-Library.Multiset"
begin

chapter \<open>The address pipeline of painel-neon: model and properties\<close>

text \<open>
  The development embeds three source files:
  \<^item> the page component with \<open>processFile\<close> (address normalisation, grouping of the
    spreadsheet rows, merge of the sequence column);
  \<^item> the edge function \<open>batch-geocode\<close> (text normalisation, locality validation, the
    three-step resolver);
  \<^item> the edge function \<open>correct-addresses\<close> (batch correction by the language model,
    mapping of the corrections back to the rows, coordinate validation).

  Conventions of the embedding.
  \<^item> A JavaScript string is a \<open>string\<close>; a character stands for the UTF-16 code unit of the
    same number, so the model covers the strings whose code units are below 256 (Latin-1).
  \<^item> A JavaScript number is a value of an abstract type \<open>'n\<close>; the primitives on numbers
    (arithmetic, \<open>Math.sin\<close>, \<open>parseFloat\<close>, \<open>String\<close> of a number, ...) are the fields of a
    record \<open>'n arith\<close> that every function working on numbers takes as its first argument.
    Nothing is assumed about them; the closed examples and the theorem on the values of
    \<open>calculateDistance\<close> alone read them in exact arithmetic.
  \<^item> An object is the list of its own properties in creation order; \<open>Object.keys\<close> and
    \<open>Object.entries\<close> enumerate array-index keys first, in ascending order.
  \<^item> Every network call is an argument: a function from the request to the response.
  \<^item> \<open>sleep\<close> and the logging calls have no counterpart: they change no value.
\<close>

section \<open>Strings\<close>

definition code :: "char \<Rightarrow> nat" where
  "code c = of_char c"

text \<open>The class \<open>\s\<close> of a regular expression and the characters \<open>trim\<close> strips:
  TAB, LF, VT, FF, CR, SPACE and NBSP (the members below 256).\<close>

definition isSpace :: "char \<Rightarrow> bool" where
  "isSpace c = (c = CHR 0x09 \<or> c = CHR 0x0A \<or> c = CHR 0x0B \<or> c = CHR 0x0C \<or>
                c = CHR 0x0D \<or> c = CHR 0x20 \<or> c = CHR 0xA0)"

text \<open>\<open>\d\<close> is \<open>[0-9]\<close>; \<open>\w\<close> is \<open>[A-Za-z0-9_]\<close>.\<close>

definition isDigit :: "char \<Rightarrow> bool" where
  "isDigit c = (48 \<le> code c \<and> code c \<le> 57)"

definition isWord :: "char \<Rightarrow> bool" where
  "isWord c = ((65 \<le> code c \<and> code c \<le> 90) \<or> (97 \<le> code c \<and> code c \<le> 122) \<or>
               isDigit c \<or> c = CHR ''_'')"

text \<open>The dot of a regular expression matches every character but a line terminator.\<close>

definition isLineTerminator :: "char \<Rightarrow> bool" where
  "isLineTerminator c = (c = CHR 0x0A \<or> c = CHR 0x0D)"

definition trim :: "string \<Rightarrow> string" where
  "trim s = rev (dropWhile isSpace (rev (dropWhile isSpace s)))"

text \<open>\<open>s.replace(/\s+/g, ' ')\<close>: the flag says that the scan stands inside a run of white space
  that has already been replaced.\<close>

fun collapseFrom :: "bool \<Rightarrow> string \<Rightarrow> string" where
  "collapseFrom inRun [] = []"
| "collapseFrom inRun (c # cs) =
     (if isSpace c then (if inRun then collapseFrom True cs else CHR 0x20 # collapseFrom True cs)
      else c # collapseFrom False cs)"

definition collapseSpaces :: "string \<Rightarrow> string" where
  "collapseSpaces s = collapseFrom False s"

fun startsWith :: "string \<Rightarrow> string \<Rightarrow> bool" where
  "startsWith s [] = True"
| "startsWith [] (p # ps) = False"
| "startsWith (c # cs) (p # ps) = (c = p \<and> startsWith cs ps)"

text \<open>\<open>strIncludes s t\<close> is \<open>s.includes(t)\<close>.\<close>

fun strIncludes :: "string \<Rightarrow> string \<Rightarrow> bool" where
  "strIncludes [] t = (t = [])"
| "strIncludes (c # cs) t = (startsWith (c # cs) t \<or> strIncludes cs t)"

text \<open>\<open>toLowerCase\<close> on code units below 256: A-Z and the capital letters of Latin-1
  (U+00C0 to U+00DE without the multiplication sign U+00D7) move up by 32.\<close>

definition lowerChar :: "char \<Rightarrow> char" where
  "lowerChar c =
     (if (65 \<le> code c \<and> code c \<le> 90) \<or> (192 \<le> code c \<and> code c \<le> 222 \<and> code c \<noteq> 215)
      then char_of (code c + 32) else c)"

definition toLowerCase :: "string \<Rightarrow> string" where
  "toLowerCase s = map lowerChar s"

text \<open>\<open>xs.join(sep)\<close> and \<open>s.split(d)\<close> for a separator of one character.\<close>

fun joinWith :: "string \<Rightarrow> string list \<Rightarrow> string" where
  "joinWith sep [] = []"
| "joinWith sep [x] = x"
| "joinWith sep (x # y # ys) = x @ sep @ joinWith sep (y # ys)"

fun splitOn :: "char \<Rightarrow> string \<Rightarrow> string list" where
  "splitOn d [] = [[]]"
| "splitOn d (c # cs) =
     (if c = d then [] # splitOn d cs
      else (case splitOn d cs of [] \<Rightarrow> [[c]] | x # xs \<Rightarrow> (c # x) # xs))"

text \<open>The decimal numeral of a natural number, as a template literal prints an index.\<close>

fun digitsOf :: "nat \<Rightarrow> nat \<Rightarrow> string" where
  "digitsOf 0 n = []"
| "digitsOf (Suc fuel) n =
     (if n < 10 then [char_of (48 + n)] else digitsOf fuel (n div 10) @ [char_of (48 + n mod 10)])"

definition showNat :: "nat \<Rightarrow> string" where
  "showNat n = digitsOf (Suc n) n"

section \<open>Numbers and cell values\<close>

text \<open>The primitives on numbers the sources use. \<open>fnum k\<close> is the number literal \<open>k\<close>;
  \<open>ftruthy x\<close> says that \<open>x\<close> is neither zero nor NaN; \<open>ftoString\<close> is \<open>String\<close> on a number and
  \<open>fparseFloat\<close> is \<open>parseFloat\<close> on a string.\<close>

record 'n arith =
  fadd :: "'n \<Rightarrow> 'n \<Rightarrow> 'n"
  fsub :: "'n \<Rightarrow> 'n \<Rightarrow> 'n"
  fmul :: "'n \<Rightarrow> 'n \<Rightarrow> 'n"
  fdiv :: "'n \<Rightarrow> 'n \<Rightarrow> 'n"
  fsin :: "'n \<Rightarrow> 'n"
  fcos :: "'n \<Rightarrow> 'n"
  fsqrt :: "'n \<Rightarrow> 'n"
  fatan2 :: "'n \<Rightarrow> 'n \<Rightarrow> 'n"
  fpi :: "'n"
  fnum :: "nat \<Rightarrow> 'n"
  fgt :: "'n \<Rightarrow> 'n \<Rightarrow> bool"
  fisNaN :: "'n \<Rightarrow> bool"
  ftruthy :: "'n \<Rightarrow> bool"
  ftoString :: "'n \<Rightarrow> string"
  fparseFloat :: "string \<Rightarrow> 'n"

text \<open>A cell of a row is a string or a number (the other kinds of JSON values are outside the
  model); a missing property reads as \<open>undefined\<close>, here \<open>None\<close>.\<close>

datatype 'n jsval = JStr string | JNum 'n

fun truthy :: "'n arith \<Rightarrow> 'n jsval \<Rightarrow> bool" where
  "truthy ops (JStr s) = (s \<noteq> [])"
| "truthy ops (JNum x) = ftruthy ops x"

fun toStr :: "'n arith \<Rightarrow> 'n jsval \<Rightarrow> string" where
  "toStr ops (JStr s) = s"
| "toStr ops (JNum x) = ftoString ops x"

text \<open>\<open>String(v || '')\<close> for a property read \<open>v\<close>.\<close>

definition stringOrEmpty :: "'n arith \<Rightarrow> 'n jsval option \<Rightarrow> string" where
  "stringOrEmpty ops v =
     (case v of None \<Rightarrow> [] | Some x \<Rightarrow> if truthy ops x then toStr ops x else [])"

section \<open>Objects\<close>

type_synonym 'v obj = "(string \<times> 'v) list"

definition getProp :: "'v obj \<Rightarrow> string \<Rightarrow> 'v option" where
  "getProp ob k = map_of ob k"

fun setProp :: "string \<Rightarrow> 'v \<Rightarrow> 'v obj \<Rightarrow> 'v obj" where
  "setProp k v [] = [(k, v)]"
| "setProp k v (p # ps) = (if fst p = k then (k, v) # ps else p # setProp k v ps)"

text \<open>An array index is the canonical numeral of an integer from 0 to \<open>2^32 - 2\<close>.\<close>

definition indexValue :: "string \<Rightarrow> nat" where
  "indexValue s = foldl (\<lambda>acc c. 10 * acc + (code c - 48)) 0 s"

definition isArrayIndex :: "string \<Rightarrow> bool" where
  "isArrayIndex s = (s \<noteq> [] \<and> list_all isDigit s \<and> (s = ''0'' \<or> hd s \<noteq> CHR ''0'') \<and>
                     indexValue s < 4294967295)"

definition objectEntries :: "'v obj \<Rightarrow> 'v obj" where
  "objectEntries ob =
     sort_key (\<lambda>p. indexValue (fst p)) (filter (\<lambda>p. isArrayIndex (fst p)) ob) @
     filter (\<lambda>p. \<not> isArrayIndex (fst p)) ob"

definition objectKeys :: "'v obj \<Rightarrow> string list" where
  "objectKeys ob = map fst (objectEntries ob)"

text \<open>The property names an object literal \<open>{}\<close> inherits from \<open>Object.prototype\<close>. Each of
  them reads as a function (\<open>__proto__\<close> as the prototype object): truthy, and without a
  method \<open>push\<close>.\<close>

definition objectPrototypeKeys :: "string list" where
  "objectPrototypeKeys =
     [''constructor'', ''__defineGetter__'', ''__defineSetter__'', ''hasOwnProperty'',
      ''__lookupGetter__'', ''__lookupSetter__'', ''isPrototypeOf'', ''propertyIsEnumerable'',
      ''toString'', ''valueOf'', ''__proto__'', ''toLocaleString'']"

section \<open>processFile: normalisation and grouping\<close>

datatype error =
    EmptySheet | NoAddressColumn | TypeError
  | NominatimError | NotAnArray
  | InvalidInput | MissingApiKey

subsection \<open>normalizeAddress\<close>

text \<open>The pattern is \<open>/^(.+?[,\s]+\d+)/\<close>. \<open>matchSepDigits\<close> matches its tail \<open>[,\s]+\d+\<close> at the
  head of a string: both quantifiers are greedy, and since no digit is a separator, giving
  back separators never helps, so the match is the longest run of separators followed by
  the longest run of digits, both non-empty.\<close>

definition isSep :: "char \<Rightarrow> bool" where
  "isSep c = (c = CHR '','' \<or> isSpace c)"

definition matchSepDigits :: "string \<Rightarrow> string option" where
  "matchSepDigits s =
     (let seps = takeWhile isSep s; ds = takeWhile isDigit (dropWhile isSep s)
      in if seps \<noteq> [] \<and> ds \<noteq> [] then Some (seps @ ds) else None)"

text \<open>The lazy \<open>.+?\<close> takes one character and then the fewest more: \<open>pre\<close> is what it has
  taken, the second argument what is left of the string. The tail is tried before each
  further character; the dot refuses a line terminator.\<close>

fun matchStreetNumber :: "string \<Rightarrow> string \<Rightarrow> string option" where
  "matchStreetNumber pre [] = None"
| "matchStreetNumber pre (c # cs) =
     (case (if pre = [] then None else matchSepDigits (c # cs)) of
        Some m \<Rightarrow> Some (pre @ m)
      | None \<Rightarrow> if isLineTerminator c then None else matchStreetNumber (pre @ [c]) cs)"

definition normalizeAddress :: "string \<Rightarrow> string" where
  "normalizeAddress address =
     (let cleaned = collapseSpaces (trim address)
      in case matchStreetNumber [] cleaned of Some m \<Rightarrow> trim m | None \<Rightarrow> cleaned)"

subsection \<open>Grouping\<close>

text \<open>\<open>grouped\<close> is an object literal used as a dictionary from the normalised address to
  its bucket. \<open>addRow\<close> is the body of the \<open>forEach\<close>: a key of the object's own has its
  bucket extended; a key that the object inherits reads as truthy, no bucket is created and
  the call of \<open>push\<close> throws; any other key gets a new bucket.\<close>

definition addRow ::
  "'n arith \<Rightarrow> string \<Rightarrow> ('n jsval obj) list obj \<Rightarrow> 'n jsval obj \<Rightarrow> error + ('n jsval obj) list obj" where
  "addRow ops addressColumn grouped row =
     (let fullAddress = trim (stringOrEmpty ops (getProp row addressColumn));
          normalizedAddress = normalizeAddress fullAddress
      in case getProp grouped normalizedAddress of
           Some bucket \<Rightarrow> Inr (setProp normalizedAddress (bucket @ [row]) grouped)
         | None \<Rightarrow>
             if normalizedAddress \<in> set objectPrototypeKeys then Inl TypeError
             else Inr (setProp normalizedAddress [row] grouped))"

fun groupRows ::
  "'n arith \<Rightarrow> string \<Rightarrow> ('n jsval obj) list obj \<Rightarrow> ('n jsval obj) list \<Rightarrow> error + ('n jsval obj) list obj" where
  "groupRows ops addressColumn grouped [] = Inr grouped"
| "groupRows ops addressColumn grouped (row # rows) =
     (case addRow ops addressColumn grouped row of
        Inl e \<Rightarrow> Inl e
      | Inr grouped' \<Rightarrow> groupRows ops addressColumn grouped' rows)"

text \<open>The callback of \<open>Object.entries(grouped).map\<close>: a copy of the first row of the bucket,
  with the sequence column, when there is one, set to the joined values of the bucket.\<close>

definition sequenceValues :: "'n arith \<Rightarrow> string \<Rightarrow> ('n jsval obj) list \<Rightarrow> string list" where
  "sequenceValues ops sequenceColumn rows =
     filter (\<lambda>s. s \<noteq> [] \<and> trim s \<noteq> [])
       (map (\<lambda>r. stringOrEmpty ops (getProp r sequenceColumn)) rows)"

definition mergeGroup :: "'n arith \<Rightarrow> string option \<Rightarrow> ('n jsval obj) list \<Rightarrow> 'n jsval obj" where
  "mergeGroup ops sequenceColumn rows =
     (let firstRow = (case rows of [] \<Rightarrow> [] | r # _ \<Rightarrow> objectEntries r)
      in case sequenceColumn of
           None \<Rightarrow> firstRow
         | Some sc \<Rightarrow>
             if sc = [] then firstRow
             else setProp sc (JStr (joinWith ''; '' (sequenceValues ops sc rows))) firstRow)"

definition isAddressColumn :: "string \<Rightarrow> bool" where
  "isAddressColumn k =
     (strIncludes (toLowerCase k) ''endereco'' \<or>
      strIncludes (toLowerCase k) (''endere'' @ [CHR 0xE7] @ ''o'') \<or>
      strIncludes (toLowerCase k) ''address'' \<or>
      strIncludes (toLowerCase k) ''rua'')"

definition isSequenceColumn :: "string \<Rightarrow> bool" where
  "isSequenceColumn k =
     (strIncludes (toLowerCase k) ''sequence'' \<or> strIncludes (toLowerCase k) ''sequencia'')"

text \<open>\<open>processFile\<close> from the parsed sheet to \<open>results\<close>: the two guards that abort, the
  discovery of the columns in the first row, the grouping and the merge.\<close>

definition groupAndMerge :: "'n arith \<Rightarrow> ('n jsval obj) list \<Rightarrow> error + ('n jsval obj) list" where
  "groupAndMerge ops jsonData =
     (case jsonData of
        [] \<Rightarrow> Inl EmptySheet
      | first # _ \<Rightarrow>
          (let addressColumn = find isAddressColumn (objectKeys first);
               sequenceColumn = find isSequenceColumn (objectKeys first)
           in case addressColumn of
                None \<Rightarrow> Inl NoAddressColumn
              | Some ac \<Rightarrow>
                  if ac = [] then Inl NoAddressColumn
                  else (case groupRows ops ac [] jsonData of
                          Inl e \<Rightarrow> Inl e
                        | Inr grouped \<Rightarrow>
                            Inr (map (\<lambda>p. mergeGroup ops sequenceColumn (snd p))
                                   (objectEntries grouped)))))"

section \<open>batch-geocode: text normalisation and the resolver\<close>

subsection \<open>normalizeText\<close>

text \<open>\<open>s.normalize("NFD").replace(/[U+0300-U+036F]/g, "")\<close>: below 256 the canonical
  decomposition splits exactly the accented Latin-1 letters into their base letter and a
  combining mark from the removed range, so the two steps together map each of them to its
  base letter and leave every other character alone.\<close>

definition stripAccent :: "char \<Rightarrow> char" where
  "stripAccent c =
     (let n = code c in
      if 192 \<le> n \<and> n \<le> 197 then CHR ''A'' else if n = 199 then CHR ''C''
      else if 200 \<le> n \<and> n \<le> 203 then CHR ''E'' else if 204 \<le> n \<and> n \<le> 207 then CHR ''I''
      else if n = 209 then CHR ''N'' else if 210 \<le> n \<and> n \<le> 214 then CHR ''O''
      else if 217 \<le> n \<and> n \<le> 220 then CHR ''U'' else if n = 221 then CHR ''Y''
      else if 224 \<le> n \<and> n \<le> 229 then CHR ''a'' else if n = 231 then CHR ''c''
      else if 232 \<le> n \<and> n \<le> 235 then CHR ''e'' else if 236 \<le> n \<and> n \<le> 239 then CHR ''i''
      else if n = 241 then CHR ''n'' else if 242 \<le> n \<and> n \<le> 246 then CHR ''o''
      else if 249 \<le> n \<and> n \<le> 252 then CHR ''u'' else if n = 253 \<or> n = 255 then CHR ''y''
      else c)"

text \<open>\<open>\b\<close> holds between two positions when exactly one of the neighbours is a word
  character; the start and the end of the string count as non-word.\<close>

definition wordBoundary :: "char option \<Rightarrow> char option \<Rightarrow> bool" where
  "wordBoundary prev nxt =
     ((case prev of None \<Rightarrow> False | Some c \<Rightarrow> isWord c) \<noteq>
      (case nxt of None \<Rightarrow> False | Some c \<Rightarrow> isWord c))"

definition headOpt :: "string \<Rightarrow> char option" where
  "headOpt s = (case s of [] \<Rightarrow> None | c # _ \<Rightarrow> Some c)"

text \<open>The patterns of \<open>normalizeText\<close> are an alternation of literals followed by \<open>\b\<close>, some
  with a leading \<open>\b\<close>. \<open>firstAlt\<close> tries the alternatives in their order at the head of the
  string: an alternative matches when the literal is there and the boundary after it holds;
  the answer is the length of the match.\<close>

fun firstAlt :: "string list \<Rightarrow> string \<Rightarrow> nat option" where
  "firstAlt [] s = None"
| "firstAlt (a # alts) s =
     (if a \<noteq> [] \<and> startsWith s a \<and> wordBoundary (Some (last a)) (headOpt (drop (length a) s))
      then Some (length a) else firstAlt alts s)"

definition altMatch :: "bool \<Rightarrow> string list \<Rightarrow> char option \<Rightarrow> string \<Rightarrow> nat option" where
  "altMatch leading alts prev s =
     (if leading \<and> \<not> wordBoundary prev (headOpt s) then None else firstAlt alts s)"

text \<open>\<open>s.replace(/.../g, rep)\<close> for such a pattern: the scan goes left to right; at a match
  the replacement is written and the scan resumes after the matched text (\<open>skip\<close> counts the
  matched characters still to pass); elsewhere the character is copied. \<open>prev\<close> is the
  character left of the position, in the string that is being read.\<close>

fun replaceScan :: "bool \<Rightarrow> string list \<Rightarrow> string \<Rightarrow> nat \<Rightarrow> char option \<Rightarrow> string \<Rightarrow> string" where
  "replaceScan leading alts rep skip prev [] = []"
| "replaceScan leading alts rep (Suc k) prev (c # cs) = replaceScan leading alts rep k (Some c) cs"
| "replaceScan leading alts rep 0 prev (c # cs) =
     (case altMatch leading alts prev (c # cs) of
        Some (Suc n) \<Rightarrow> rep @ replaceScan leading alts rep n (Some c) cs
      | _ \<Rightarrow> c # replaceScan leading alts rep 0 (Some c) cs)"

definition replaceAll :: "bool \<Rightarrow> string list \<Rightarrow> string \<Rightarrow> string \<Rightarrow> string" where
  "replaceAll leading alts rep s = replaceScan leading alts rep 0 None s"

definition normalizeText :: "string option \<Rightarrow> string" where
  "normalizeText s =
     (case s of
        None \<Rightarrow> []
      | Some t \<Rightarrow>
          if t = [] then []
          else
            (let withNoAccents = map stripAccent t;
                 t1 = toLowerCase withNoAccents;
                 t2 = replaceAll False [''av'', ''av.'', ''avenida''] ''avenida'' t1;
                 t3 = replaceAll True [''r'', ''r.''] ''rua'' t2;
                 t4 = replaceAll False [''rod'', ''rod.'', ''rodovia''] ''rodovia'' t3;
                 t5 = replaceAll True
                        [''proximo a'', ''proximo'', ''pr'' @ [CHR 0xF3] @ ''ximo a'', ''perto de'',
                         ''em frente ao'', ''ao lado de''] [] t4;
                 t6 = filter (\<lambda>c. isWord c \<or> isSpace c \<or> c = CHR ''-'' \<or> c = CHR '','') t5;
                 t7 = collapseSpaces t6
             in trim t7))"

subsection \<open>Rows, provider results and locality validation\<close>

text \<open>\<open>a || b\<close> for an optional string \<open>a\<close>.\<close>

definition strOr :: "string option \<Rightarrow> string \<Rightarrow> string" where
  "strOr a b = (case a of None \<Rightarrow> b | Some s \<Rightarrow> if s = [] then b else s)"

record ExpectedAddressDetails =
  bairro :: "string option"
  cidade :: "string option"
  estado :: "string option"

text \<open>An input row has the three locality hints and the raw address (its further
  properties are copied to the output untouched and are left out here).\<close>

record InputAddressRow = ExpectedAddressDetails +
  rawAddress :: "string option"

record NominatimAddressDetails =
  city :: "string option"
  town :: "string option"
  village :: "string option"
  county :: "string option"
  suburb :: "string option"
  neighbourhood :: "string option"
  state :: "string option"

record NominatimResult =
  lat :: string
  lon :: string
  display_name :: string
  address :: "NominatimAddressDetails option"

text \<open>The three checks of \<open>addressMatchesExpected\<close>, on the normalised strings and read for
  their truthiness, as the \<open>if\<close> of the caller reads them.\<close>

definition cityMatches :: "string \<Rightarrow> string \<Rightarrow> bool" where
  "cityMatches expCity gCity =
     (expCity \<noteq> [] \<and> gCity \<noteq> [] \<and> (strIncludes gCity expCity \<or> strIncludes expCity gCity))"

definition stateMatches :: "string \<Rightarrow> string \<Rightarrow> bool" where
  "stateMatches expState gState =
     (expState = [] \<or> (gState \<noteq> [] \<and> (strIncludes gState expState \<or> strIncludes expState expState)))"

definition bairroMatches :: "string \<Rightarrow> string \<Rightarrow> bool" where
  "bairroMatches expBairro gBairro =
     (if expBairro = [] then True
      else if gBairro \<noteq> [] then (strIncludes gBairro expBairro \<or> strIncludes expBairro expBairro)
      else False)"

definition addressMatchesExpected ::
  "NominatimAddressDetails option \<Rightarrow> ExpectedAddressDetails \<Rightarrow> bool" where
  "addressMatchesExpected nominatimAddress expected =
     (case nominatimAddress of
        None \<Rightarrow> False
      | Some a \<Rightarrow>
          (let gotCity = strOr (city a) (strOr (town a) (strOr (village a) []));
               gotCounty = strOr (county a) [];
               gotSuburb = strOr (suburb a) (strOr (neighbourhood a) []);
               gotState = strOr (state a) [];
               expCity = normalizeText (Some (strOr (cidade expected) []));
               expBairro = normalizeText (Some (strOr (bairro expected) []));
               expState = normalizeText (Some (strOr (estado expected) []));
               gCity = normalizeText (Some (if gotCity \<noteq> [] then gotCity else gotCounty));
               gBairro = normalizeText (Some gotSuburb);
               gState = normalizeText (Some gotState)
           in cityMatches expCity gCity \<and> stateMatches expState gState \<and>
              bairroMatches expBairro gBairro))"

subsection \<open>The provider and the queries\<close>

text \<open>A query is the list of the parameters of a \<open>URLSearchParams\<close>; the provider is a
  function from the query to what \<open>fetch\<close> brings back: a failure of the call, a status
  that is not ok, or the parsed array of results.\<close>

type_synonym query = "(string \<times> string) list"

datatype httpResponse = FetchFailed | NotOk | Ok "NominatimResult list"

definition nominatimSearch :: "(query \<Rightarrow> httpResponse) \<Rightarrow> query \<Rightarrow> error + NominatimResult option" where
  "nominatimSearch http paramsString =
     (case http paramsString of
        FetchFailed \<Rightarrow> Inl NominatimError
      | NotOk \<Rightarrow> Inl NominatimError
      | Ok json \<Rightarrow> Inr (case json of [] \<Rightarrow> None | r # _ \<Rightarrow> Some r))"

definition buildStructuredParams :: "'a InputAddressRow_scheme \<Rightarrow> query" where
  "buildStructuredParams row =
     (let street = normalizeText (Some (strOr (rawAddress row) []));
          city' = normalizeText (Some (strOr (cidade row) []));
          state' = normalizeText (Some (strOr (estado row) []))
      in [(''format'', ''json''), (''addressdetails'', ''1''), (''limit'', ''1''),
          (''countrycodes'', ''br'')] @
         (if street \<noteq> [] then [(''street'', street)] else []) @
         (if city' \<noteq> [] then [(''city'', city')] else []) @
         (if state' \<noteq> [] then [(''state'', state')] else []))"

definition buildFreeTextParam :: "'a InputAddressRow_scheme \<Rightarrow> query" where
  "buildFreeTextParam row =
     (let parts = (if strOr (rawAddress row) [] \<noteq> [] then [strOr (rawAddress row) []] else []) @
                  (if strOr (bairro row) [] \<noteq> [] then [strOr (bairro row) []] else []) @
                  (if strOr (cidade row) [] \<noteq> [] then [strOr (cidade row) []] else []) @
                  (if strOr (estado row) [] \<noteq> [] then [strOr (estado row) []] else [])
      in [(''q'', joinWith '', '' parts), (''format'', ''json''), (''addressdetails'', ''1''),
          (''limit'', ''1''), (''countrycodes'', ''br'')])"

definition correctedParams :: "'a InputAddressRow_scheme \<Rightarrow> query" where
  "correctedParams row =
     [(''street'', normalizeText (Some (strOr (rawAddress row) []))),
      (''city'', normalizeText (Some (strOr (cidade row) []))),
      (''format'', ''json''), (''addressdetails'', ''1''), (''limit'', ''1''),
      (''countrycodes'', ''br'')]"

subsection \<open>The resolver\<close>

datatype status = Valid | Corrected | Pending | Mismatch

text \<open>The output row. \<open>searchUsed\<close> keeps the tag and the query of the last search in place of
  the decoded query string; \<open>inputRow\<close> stands for the spread of the input row.\<close>

record ProcessedAddress =
  inputRow :: InputAddressRow
  originalAddress :: string
  correctedAddress :: "string option"
  latitude :: "string option"
  longitude :: "string option"
  status :: status
  searchUsed :: "string \<times> query"
  note' :: string
  display_name' :: "string option"

definition expectedOf :: "InputAddressRow \<Rightarrow> ExpectedAddressDetails" where
  "expectedOf row = \<lparr> bairro = bairro row, cidade = cidade row, estado = estado row \<rparr>"

definition emptyDetails :: NominatimAddressDetails where
  "emptyDetails = \<lparr> city = None, town = None, village = None, county = None, suburb = None,
                     neighbourhood = None, state = None \<rparr>"

text \<open>\<open>found.address || {}\<close>.\<close>

definition addressOrEmpty :: "NominatimResult \<Rightarrow> NominatimAddressDetails" where
  "addressOrEmpty r = (case address r of None \<Rightarrow> emptyDetails | Some a \<Rightarrow> a)"

text \<open>\<open>(note ? note + ";" : "") + msg\<close>.\<close>

definition appendNote :: "string \<Rightarrow> string \<Rightarrow> string" where
  "appendNote n msg = (if n \<noteq> [] then n @ '';'' else []) @ msg"

text \<open>The object pushed to \<open>results\<close>.\<close>

definition mkResult ::
  "InputAddressRow \<Rightarrow> status \<Rightarrow> NominatimResult option \<Rightarrow> string \<times> query \<Rightarrow> string \<Rightarrow> ProcessedAddress" where
  "mkResult row st found used n =
     \<lparr> inputRow = row,
       originalAddress = strOr (rawAddress row) [],
       correctedAddress =
         (if st = Valid \<or> st = Corrected
          then (case found of
                  None \<Rightarrow> rawAddress row
                | Some f \<Rightarrow> if display_name f \<noteq> [] then Some (display_name f) else rawAddress row)
          else rawAddress row),
       latitude = (case found of None \<Rightarrow> None | Some f \<Rightarrow> Some (lat f)),
       longitude = (case found of None \<Rightarrow> None | Some f \<Rightarrow> Some (lon f)),
       status = st,
       searchUsed = used,
       note' = n,
       display_name' = (case found of None \<Rightarrow> None | Some f \<Rightarrow> Some (display_name f)) \<rparr>"

text \<open>Step 3 of the loop body, for a result \<open>f\<close> that step 1 or step 2 found: validation and,
  when it fails, the corrective retry.\<close>

definition validateFound ::
  "(query \<Rightarrow> httpResponse) \<Rightarrow> InputAddressRow \<Rightarrow> NominatimResult \<Rightarrow> string \<times> query \<Rightarrow> string \<Rightarrow>
   ProcessedAddress" where
  "validateFound http row f used n =
     (if addressMatchesExpected (Some (addressOrEmpty f)) (expectedOf row)
      then mkResult row Valid (Some f) used ''matches-planilha''
      else
        (let used' = (''retry-corrected:'', correctedParams row)
         in case nominatimSearch http (correctedParams row) of
              Inl e \<Rightarrow> mkResult row Mismatch (Some f) used' (appendNote n ''erro-na-requisicao-retry'')
            | Inr None \<Rightarrow>
                mkResult row Mismatch (Some f) used' ''resultado-nao-coincide-com-cidade-bairro''
            | Inr (Some retr) \<Rightarrow>
                if addressMatchesExpected (Some (addressOrEmpty retr)) (expectedOf row)
                then mkResult row Corrected (Some retr) used' ''retry-corrected-success''
                else mkResult row Mismatch (Some f) used'
                       ''resultado-nao-coincide-com-cidade-bairro''))"

text \<open>The body of the loop of \<open>serve\<close> for one row: the structured search, the free-text search
  when nothing was found, then validation, or \<open>pending\<close>.\<close>

definition resolveRow :: "(query \<Rightarrow> httpResponse) \<Rightarrow> InputAddressRow \<Rightarrow> ProcessedAddress" where
  "resolveRow http row =
     (let structured = buildStructuredParams row;
          used1 = (''structured:'', structured);
          (found1, note1) =
            (case nominatimSearch http structured of
               Inl e \<Rightarrow> (None, ''erro-na-requisicao-structured'')
             | Inr r \<Rightarrow> (r, []));
          free = buildFreeTextParam row;
          (found2, note2, used2) =
            (case found1 of
               Some f \<Rightarrow> (found1, note1, used1)
             | None \<Rightarrow>
                 (case nominatimSearch http free of
                    Inl e \<Rightarrow> (None, appendNote note1 ''erro-na-requisicao-freetext'', (''freetext:'', free))
                  | Inr r \<Rightarrow> (r, note1, (''freetext:'', free))))
      in case found2 of
           Some f \<Rightarrow> validateFound http row f used2 note2
         | None \<Rightarrow>
             mkResult row Pending None used2 (if note2 \<noteq> [] then note2 else ''nao-encontrado''))"

text \<open>The handler: the body must hold an array; the rows are resolved one after the other,
  each against the provider as it answers during that row (\<open>http i\<close> for row \<open>i\<close>).\<close>

definition batchGeocode ::
  "(nat \<Rightarrow> query \<Rightarrow> httpResponse) \<Rightarrow> InputAddressRow list option \<Rightarrow> error + ProcessedAddress list" where
  "batchGeocode http addresses =
     (case addresses of
        None \<Rightarrow> Inl NotAnArray
      | Some rows \<Rightarrow> Inr (map (\<lambda>(i, row). resolveRow (http i) row) (enumerate 0 rows)))"

section \<open>correct-addresses: correction by batch and coordinate validation\<close>

subsection \<open>calculateDistance\<close>

definition calculateDistance :: "'n arith \<Rightarrow> 'n \<Rightarrow> 'n \<Rightarrow> 'n \<Rightarrow> 'n \<Rightarrow> 'n" where
  "calculateDistance ops lat1 lon1 lat2 lon2 =
     (let R = fnum ops 6371000;
          phi1 = fdiv ops (fmul ops lat1 (fpi ops)) (fnum ops 180);
          phi2 = fdiv ops (fmul ops lat2 (fpi ops)) (fnum ops 180);
          dphi = fdiv ops (fmul ops (fsub ops lat2 lat1) (fpi ops)) (fnum ops 180);
          dlambda = fdiv ops (fmul ops (fsub ops lon2 lon1) (fpi ops)) (fnum ops 180);
          a = fadd ops
                (fmul ops (fsin ops (fdiv ops dphi (fnum ops 2))) (fsin ops (fdiv ops dphi (fnum ops 2))))
                (fmul ops
                  (fmul ops (fmul ops (fcos ops phi1) (fcos ops phi2))
                     (fsin ops (fdiv ops dlambda (fnum ops 2))))
                  (fsin ops (fdiv ops dlambda (fnum ops 2))));
          c = fmul ops (fnum ops 2) (fatan2 ops (fsqrt ops a) (fsqrt ops (fsub ops (fnum ops 1) a)))
      in fmul ops R c)"

subsection \<open>geocodeAddress\<close>

text \<open>The provider answers a free query string here: the address, followed by the zip code
  when there is one. Every failure gives \<open>null\<close>.\<close>

definition geocodeQuery :: "string \<Rightarrow> string option \<Rightarrow> string" where
  "geocodeQuery address' zipcode =
     (case zipcode of
        None \<Rightarrow> address'
      | Some z \<Rightarrow> if z \<noteq> [] then address' @ '', '' @ z else address')"

definition geocodeAddress ::
  "'n arith \<Rightarrow> (string \<Rightarrow> httpResponse) \<Rightarrow> string \<Rightarrow> string option \<Rightarrow> ('n \<times> 'n) option" where
  "geocodeAddress ops http address' zipcode =
     (case http (geocodeQuery address' zipcode) of
        FetchFailed \<Rightarrow> None
      | NotOk \<Rightarrow> None
      | Ok data \<Rightarrow>
          (case data of
             [] \<Rightarrow> None
           | d # _ \<Rightarrow> Some (fparseFloat ops (lat d), fparseFloat ops (lon d))))"

subsection \<open>correctAddressesBatchWithAI\<close>

text \<open>What one call of the completion service brings back: status 429, another status that
  is not ok, a body with the content of the first choice (\<open>None\<close> when the optional chain
  gives \<open>undefined\<close>), or an exception anywhere in the \<open>try\<close>. The service is a function of
  the user message and the number of the attempt.\<close>

datatype aiResponse = RateLimited | AiNotOk | AiContent "string option" | AiThrew

text \<open>\<open>addresses.map((addr, idx) => `${idx + 1}. ${addr}`).join('\n')\<close> and the user message.\<close>

definition addressList :: "string list \<Rightarrow> string" where
  "addressList addresses =
     joinWith [CHR 0x0A] (map (\<lambda>(idx, addr). showNat (idx + 1) @ ''. '' @ addr) (enumerate 0 addresses))"

definition userMessage :: "string list \<Rightarrow> string" where
  "userMessage addresses =
     ''Corrija estes endere'' @ [CHR 0xE7] @ ''os brasileiros:'' @ [CHR 0x0A] @ addressList addresses"

text \<open>\<open>line.replace(/^\d+\.\s*/, '')\<close>: the longest run of digits at the head, when it is not
  empty and a dot follows, goes away with the dot and the white space after it.\<close>

definition stripNumber :: "string \<Rightarrow> string" where
  "stripNumber line =
     (let ds = takeWhile isDigit line; rest = dropWhile isDigit line
      in if ds \<noteq> [] \<and> startsWith rest ''.'' then dropWhile isSpace (tl rest) else line)"

definition parseCorrected :: "string \<Rightarrow> string list" where
  "parseCorrected correctedText =
     map (\<lambda>line. trim (stripNumber line))
       (filter (\<lambda>line. trim line \<noteq> []) (splitOn (CHR 0x0A) correctedText))"

text \<open>The loop over the attempts, from attempt \<open>attempt\<close> on.\<close>

function correctAttempts ::
  "(string \<Rightarrow> nat \<Rightarrow> aiResponse) \<Rightarrow> string list \<Rightarrow> nat \<Rightarrow> nat \<Rightarrow> string list" where
  "correctAttempts fetch addresses retries attempt =
     (if attempt < retries then
        (case fetch (userMessage addresses) attempt of
           RateLimited \<Rightarrow> correctAttempts fetch addresses retries (Suc attempt)
         | AiNotOk \<Rightarrow> addresses
         | AiContent content \<Rightarrow>
             (let correctedText = (case content of None \<Rightarrow> [] | Some t \<Rightarrow> trim t)
              in if correctedText = [] then addresses
                 else (let correctedAddresses = parseCorrected correctedText
                       in if length correctedAddresses = length addresses then correctedAddresses
                          else addresses))
         | AiThrew \<Rightarrow>
             if attempt = retries - 1 then addresses
             else correctAttempts fetch addresses retries (Suc attempt))
      else addresses)"
  by pat_completeness auto
termination
  by (relation "measure (\<lambda>(fetch, addresses, retries, attempt). retries - attempt)") auto

declare correctAttempts.simps [simp del]

definition correctAddressesBatchWithAI ::
  "(string \<Rightarrow> nat \<Rightarrow> aiResponse) \<Rightarrow> string list \<Rightarrow> nat \<Rightarrow> string list" where
  "correctAddressesBatchWithAI fetch addresses retries = correctAttempts fetch addresses retries 0"

subsection \<open>The handler\<close>

definition isAddressKey :: "string \<Rightarrow> bool" where
  "isAddressKey k =
     (strIncludes (toLowerCase k) ''address'' \<or> strIncludes (toLowerCase k) ''endereco'' \<or>
      strIncludes (toLowerCase k) (''endere'' @ [CHR 0xE7] @ ''o''))"

definition isZipKey :: "string \<Rightarrow> bool" where
  "isZipKey k =
     (strIncludes (toLowerCase k) ''zipcode'' \<or> strIncludes (toLowerCase k) ''postal'' \<or>
      strIncludes (toLowerCase k) ''cep'')"

definition isLatKey :: "string \<Rightarrow> bool" where
  "isLatKey k = (strIncludes (toLowerCase k) ''latitude'' \<or> toLowerCase k = ''lat'')"

definition isLonKey :: "string \<Rightarrow> bool" where
  "isLonKey k =
     (strIncludes (toLowerCase k) ''longitude'' \<or> toLowerCase k = ''lon'' \<or> toLowerCase k = ''lng'')"

text \<open>The truthiness test on a key that was looked for: \<open>undefined\<close> and the empty string
  count as not found.\<close>

definition foundKey :: "string option \<Rightarrow> string option" where
  "foundKey k = (case k of None \<Rightarrow> None | Some s \<Rightarrow> if s \<noteq> [] then Some s else None)"

record 'n addressData =
  row :: "'n jsval obj"
  addressKey :: "string option"
  zipKey :: "string option"
  latKey :: "string option"
  lonKey :: "string option"
  originalAddress' :: string

definition extractAddressData :: "'n arith \<Rightarrow> 'n jsval obj \<Rightarrow> 'n addressData" where
  "extractAddressData ops r =
     (let ak = find isAddressKey (objectKeys r)
      in \<lparr> row = r,
           addressKey = ak,
           zipKey = find isZipKey (objectKeys r),
           latKey = find isLatKey (objectKeys r),
           lonKey = find isLonKey (objectKeys r),
           originalAddress' =
             (case foundKey ak of
                Some k \<Rightarrow> trim (stringOrEmpty ops (getProp r k))
              | None \<Rightarrow> []) \<rparr>)"

text \<open>\<open>correctedAddresses[idx] || originalAddress\<close>: an index past the end reads
  \<open>undefined\<close>.\<close>

definition correctionAt :: "string list \<Rightarrow> nat \<Rightarrow> string \<Rightarrow> string" where
  "correctionAt correctedAddresses idx original =
     (if idx < length correctedAddresses \<and> correctedAddresses ! idx \<noteq> []
      then correctedAddresses ! idx else original)"

text \<open>\<open>parseFloat(v)\<close> for a property read: the argument is turned into a string first.\<close>

definition parseFloatOf :: "'n arith \<Rightarrow> 'n jsval option \<Rightarrow> 'n" where
  "parseFloatOf ops v =
     fparseFloat ops (case v of None \<Rightarrow> ''undefined'' | Some x \<Rightarrow> toStr ops x)"

text \<open>The coordinate validation of one row: \<open>r\<close> is the row as received, \<open>updatedRow\<close> its copy
  after the address step, \<open>geocode\<close> the call of \<open>geocodeAddress\<close> for this row.\<close>

definition validateCoordinates ::
  "'n arith \<Rightarrow> ('n \<times> 'n) option \<Rightarrow> 'n jsval obj \<Rightarrow> string option \<Rightarrow> string option \<Rightarrow>
   'n jsval obj \<Rightarrow> 'n jsval obj" where
  "validateCoordinates ops geocode r latK lonK updatedRow =
     (case (foundKey latK, foundKey lonK) of
        (Some lk, Some ok) \<Rightarrow>
          (let originalLat = parseFloatOf ops (getProp r lk);
               originalLon = parseFloatOf ops (getProp r ok)
           in if \<not> fisNaN ops originalLat \<and> \<not> fisNaN ops originalLon then
                (case geocode of
                   None \<Rightarrow> updatedRow
                 | Some (glat, glon) \<Rightarrow>
                     (let distance = calculateDistance ops originalLat originalLon glat glon
                      in if fgt ops distance (fnum ops 200)
                         then setProp ok (JNum glon) (setProp lk (JNum glat) updatedRow)
                         else updatedRow))
              else updatedRow)
      | _ \<Rightarrow> updatedRow)"

text \<open>The callback of \<open>addressData.map\<close> for the row at position \<open>idx\<close> of the batch.\<close>

definition processRow ::
  "'n arith \<Rightarrow> (string \<Rightarrow> httpResponse) \<Rightarrow> string list \<Rightarrow> nat \<Rightarrow> 'n addressData \<Rightarrow> 'n jsval obj" where
  "processRow ops http correctedAddresses idx d =
     (case foundKey (addressKey d) of
        None \<Rightarrow> row d
      | Some ak \<Rightarrow>
          (let correctedAddress = correctionAt correctedAddresses idx (originalAddress' d);
               zipcode = (case foundKey (zipKey d) of
                            Some zk \<Rightarrow> Some (trim (stringOrEmpty ops (getProp (row d) zk)))
                          | None \<Rightarrow> None);
               copy = objectEntries (row d);
               updatedRow = (if correctedAddress \<noteq> originalAddress' d
                             then setProp ak (JStr correctedAddress) copy
                             else copy)
           in validateCoordinates ops (geocodeAddress ops http correctedAddress zipcode)
                (row d) (latKey d) (lonKey d) updatedRow))"

text \<open>One batch: the non-empty original addresses go to the corrector in one call (no call
  when there is none), and the rows are then processed with the list it returns. \<open>http i\<close>
  is the geocoding provider as it answers the call made for the row at position \<open>i\<close>.\<close>

definition batchAddresses :: "'n addressData list \<Rightarrow> string list" where
  "batchAddresses ds = filter (\<lambda>a. a \<noteq> []) (map originalAddress' ds)"

definition batchCorrections :: "(string \<Rightarrow> nat \<Rightarrow> aiResponse) \<Rightarrow> 'n addressData list \<Rightarrow> string list" where
  "batchCorrections fetch ds =
     (let addresses = batchAddresses ds
      in if addresses \<noteq> [] then correctAddressesBatchWithAI fetch addresses 3 else [])"

definition processBatch ::
  "'n arith \<Rightarrow> (string \<Rightarrow> nat \<Rightarrow> aiResponse) \<Rightarrow> (nat \<Rightarrow> string \<Rightarrow> httpResponse) \<Rightarrow>
   'n jsval obj list \<Rightarrow> 'n jsval obj list" where
  "processBatch ops fetch http batch =
     (let ds = map (extractAddressData ops) batch;
          correctedAddresses = batchCorrections fetch ds
      in map (\<lambda>(idx, d). processRow ops (http idx) correctedAddresses idx d) (enumerate 0 ds))"

text \<open>The loop over the batches of 15 rows, from row \<open>batchStart\<close> on; the two services are
  given the position of the batch.\<close>

function correctBatches ::
  "'n arith \<Rightarrow> (nat \<Rightarrow> string \<Rightarrow> nat \<Rightarrow> aiResponse) \<Rightarrow> (nat \<Rightarrow> nat \<Rightarrow> string \<Rightarrow> httpResponse) \<Rightarrow>
   nat \<Rightarrow> 'n jsval obj list \<Rightarrow> 'n jsval obj list" where
  "correctBatches ops fetch http batchStart rows =
     (if batchStart < length rows then
        processBatch ops (fetch batchStart) (http batchStart) (take 15 (drop batchStart rows)) @
        correctBatches ops fetch http (batchStart + 15) rows
      else [])"
  by pat_completeness auto
termination
  by (relation "measure (\<lambda>(ops, fetch, http, batchStart, rows). length rows - batchStart)") auto

declare correctBatches.simps [simp del]

definition correctAddresses ::
  "'n arith \<Rightarrow> string option \<Rightarrow> (nat \<Rightarrow> string \<Rightarrow> nat \<Rightarrow> aiResponse) \<Rightarrow>
   (nat \<Rightarrow> nat \<Rightarrow> string \<Rightarrow> httpResponse) \<Rightarrow> 'n jsval obj list option \<Rightarrow> error + 'n jsval obj list" where
  "correctAddresses ops lovableApiKey fetch http rows =
     (case rows of
        None \<Rightarrow> Inl InvalidInput
      | Some rs \<Rightarrow>
          (case foundKey lovableApiKey of
             None \<Rightarrow> Inl MissingApiKey
           | Some k \<Rightarrow> Inr (correctBatches ops fetch http 0 rs)))"

section \<open>Exact arithmetic\<close>

text \<open>The closed examples below need some value of type \<open>'n arith\<close>. \<open>exampleArith\<close> computes
  on real numbers, with \<open>None\<close> for NaN and without infinities: the arithmetic and the
  functions of \<open>Math\<close> are exact, so that there is neither rounding nor overflow, and the
  square root of a negative number is NaN. Its \<open>parseFloat\<close> reads unsigned decimal integers
  only and its \<open>String\<close> prints natural numbers only, which is all the examples use. The
  theorem on the values of \<open>calculateDistance\<close> is stated for this arithmetic; no other general
  theorem mentions it.\<close>

definition lift1 :: "(real \<Rightarrow> real) \<Rightarrow> real option \<Rightarrow> real option" where
  "lift1 f x = (case x of None \<Rightarrow> None | Some a \<Rightarrow> Some (f a))"

definition lift2 :: "(real \<Rightarrow> real \<Rightarrow> real) \<Rightarrow> real option \<Rightarrow> real option \<Rightarrow> real option" where
  "lift2 f x y = (case x of None \<Rightarrow> None | Some a \<Rightarrow> (case y of None \<Rightarrow> None | Some b \<Rightarrow> Some (f a b)))"

definition atan2 :: "real \<Rightarrow> real \<Rightarrow> real" where
  "atan2 y x =
     (if 0 < x then arctan (y / x)
      else if x < 0 then (if 0 \<le> y then arctan (y / x) + pi else arctan (y / x) - pi)
      else if 0 < y then pi / 2 else if y < 0 then - pi / 2 else 0)"

definition exampleArith :: "real option arith" where
  "exampleArith =
     \<lparr> fadd = lift2 (+), fsub = lift2 (-), fmul = lift2 (*),
       fdiv = lift2 (/),
       fsin = lift1 sin, fcos = lift1 cos,
       fsqrt = (\<lambda>x. case x of None \<Rightarrow> None | Some a \<Rightarrow> if a < 0 then None else Some (sqrt a)),
       fatan2 = lift2 atan2,
       fpi = Some pi,
       fnum = (\<lambda>k. Some (real k)),
       fgt = (\<lambda>x y. case x of None \<Rightarrow> False | Some a \<Rightarrow> (case y of None \<Rightarrow> False | Some b \<Rightarrow> b < a)),
       fisNaN = (\<lambda>x. x = None),
       ftruthy = (\<lambda>x. x \<noteq> None \<and> x \<noteq> Some 0),
       ftoString = (\<lambda>x. case x of None \<Rightarrow> ''NaN''
                         | Some a \<Rightarrow> if 0 \<le> a \<and> a = real (nat \<lfloor>a\<rfloor>) then showNat (nat \<lfloor>a\<rfloor>) else ''NaN''),
       fparseFloat = (\<lambda>s. if s \<noteq> [] \<and> list_all isDigit s then Some (real (indexValue s)) else None) \<rparr>"

section \<open>The wording of the specification\<close>

text \<open>The specification describes the merged sequence value as the joined list of the
  non-blank, trimmed values of the bucket. \<open>claimedSequence\<close> is that description, for
  comparison with what \<open>mergeGroup\<close> computes.\<close>

definition claimedSequence :: "'n arith \<Rightarrow> string \<Rightarrow> ('n jsval obj) list \<Rightarrow> string" where
  "claimedSequence ops sequenceColumn rws =
     joinWith ''; ''
       (map trim (filter (\<lambda>s. trim s \<noteq> [])
          (map (\<lambda>r. stringOrEmpty ops (getProp r sequenceColumn)) rws)))"

section \<open>Inputs of the examples\<close>

definition rowsS1S3 :: "(real option jsval obj) list" where
  "rowsS1S3 = [[(''Address'', JStr ''Rua A, 10''), (''Sequence'', JStr ''S1'')],
               [(''Address'', JStr ''Rua A, 10, Casa''), (''Sequence'', JStr [])],
               [(''Address'', JStr ''Rua A, 10, Apto 2''), (''Sequence'', JStr ''S3'')]]"

definition rowsUntrimmed :: "(real option jsval obj) list" where
  "rowsUntrimmed = [[(''Address'', JStr ''Rua A, 10''), (''Sequence'', JStr '' S1'')],
                    [(''Address'', JStr ''Rua A, 10, Casa''), (''Sequence'', JStr ''S3'')]]"

definition rowsConstructor :: "(real option jsval obj) list" where
  "rowsConstructor = [[(''Address'', JStr ''Rua A, 10''), (''Sequence'', JStr ''S1'')],
                      [(''Address'', JStr ''constructor''), (''Sequence'', JStr ''S2'')]]"

definition exampleResult :: NominatimResult where
  "exampleResult =
     \<lparr> lat = ''-22.9068'', lon = ''-43.1729'', display_name = ''Rua A, Copacabana, Rio de Janeiro'',
       address = Some (emptyDetails \<lparr> city := Some ''Rio de Janeiro'', suburb := Some ''Copacabana'',
                                      state := Some ''Rio de Janeiro'' \<rparr>) \<rparr>"

definition exampleHttp :: "query \<Rightarrow> httpResponse" where
  "exampleHttp q = Ok [exampleResult]"

definition rowWithoutHints :: InputAddressRow where
  "rowWithoutHints = \<lparr> bairro = None, cidade = None, estado = None, rawAddress = Some ''Rua A, 10'' \<rparr>"

definition rowWithHints :: InputAddressRow where
  "rowWithHints = \<lparr> bairro = Some ''Centro'', cidade = Some ''Rio de Janeiro'', estado = Some ''RJ'',
                     rawAddress = Some ''Rua A, 10'' \<rparr>"

definition rowMatchingHints :: InputAddressRow where
  "rowMatchingHints = \<lparr> bairro = Some ''Copacabana'', cidade = Some ''Rio de Janeiro'',
                         estado = Some ''Rio de Janeiro'', rawAddress = Some ''Rua A, 10'' \<rparr>"

definition oneLineService :: "string \<Rightarrow> nat \<Rightarrow> aiResponse" where
  "oneLineService message attempt = AiContent (Some ''1. Rua A, 10'')"

definition blankFirstBatch :: "(real option jsval obj) list" where
  "blankFirstBatch = [[(''address'', JStr [])], [(''address'', JStr ''Rua A'')]]"

definition blankFirstBatch3 :: "(real option jsval obj) list" where
  "blankFirstBatch3 = [[(''address'', JStr [])], [(''address'', JStr ''Rua A'')], [(''address'', JStr ''Rua B'')]]"

definition nonBlankBatch :: "(real option jsval obj) list" where
  "nonBlankBatch = [[(''address'', JStr ''Rua A'')], [(''address'', JStr ''Rua B'')]]"

definition mixedBatch :: "(real option jsval obj) list" where
  "mixedBatch = [[(''address'', JStr [])], [(''cep'', JStr ''1'')], [(''address'', JStr ''Rua A'')],
                 [(''address'', JStr ''Rua B'')]]"

definition correctedService :: "string \<Rightarrow> nat \<Rightarrow> aiResponse" where
  "correctedService message attempt = AiContent (Some ''1. Rua A, Centro'')"

definition noGeocoder :: "nat \<Rightarrow> string \<Rightarrow> httpResponse" where
  "noGeocoder i q = FetchFailed"

definition farGeocoder :: "string \<Rightarrow> httpResponse" where
  "farGeocoder q = Ok [\<lparr> lat = ''180'', lon = ''0'', display_name = [], address = None \<rparr>]"

definition farEastGeocoder :: "string \<Rightarrow> httpResponse" where
  "farEastGeocoder q = Ok [\<lparr> lat = ''0'', lon = ''180'', display_name = [], address = None \<rparr>]"

definition rowAddressLatLon :: "real option jsval obj" where
  "rowAddressLatLon = [(''address'', JStr ''Rua A''), (''lat'', JStr ''0''), (''lon'', JStr ''0'')]"

definition rowAddressCombined :: "real option jsval obj" where
  "rowAddressCombined = [(''address'', JStr ''Rua A''), (''latitude/longitude'', JStr ''0'')]"

definition unavailableService :: "string \<Rightarrow> nat \<Rightarrow> aiResponse" where
  "unavailableService message attempt = AiNotOk"

definition twoLineService :: "string \<Rightarrow> nat \<Rightarrow> aiResponse" where
  "twoLineService message attempt =
     AiContent (Some (''1. Rua A, Centro'' @ [CHR 0x0A] @ ''2. Rua B, Centro''))"

section \<open>Notions used in the statements and proofs\<close>

text \<open>A string without white space at either end.\<close>

definition edgesOk :: "string \<Rightarrow> bool" where
  "edgesOk s = (s = [] \<or> (\<not> isSpace (hd s) \<and> \<not> isSpace (last s)))"

text \<open>The grouping key of a row, as \<open>addRow\<close> computes it.\<close>

definition keyOf :: "'n arith \<Rightarrow> string \<Rightarrow> 'n jsval obj \<Rightarrow> string" where
  "keyOf ops addressColumn r = normalizeAddress (trim (stringOrEmpty ops (getProp r addressColumn)))"

text \<open>The invariant of the grouping loop after the rows \<open>seen\<close>: the keys are distinct, the
  bucket of a key holds the rows seen with that key, in their order, and is not empty, and
  the buckets together hold each row seen as often as it was seen.\<close>

definition groupedInv ::
  "('r \<Rightarrow> string) \<Rightarrow> (string \<times> 'r list) list \<Rightarrow> 'r list \<Rightarrow> bool" where
  "groupedInv keyf grouped seen =
     (distinct (map fst grouped) \<and>
      list_all (\<lambda>p. snd p = filter (\<lambda>r. keyf r = fst p) seen \<and> snd p \<noteq> []) grouped \<and>
      mset (concat (map snd grouped)) = mset seen)"

text \<open>The positions, within a batch, of the rows whose address is sent to the corrector: the
  entry \<open>m\<close> of the list that \<open>batchAddresses\<close> builds is the address of the row at position
  \<open>nonBlankRows ds ! m\<close>, and the entry \<open>m\<close> of the corrector's answer is the correction
  computed for it.\<close>

definition nonBlankRows :: "'n addressData list \<Rightarrow> nat list" where
  "nonBlankRows ds = filter (\<lambda>k. originalAddress' (ds ! k) \<noteq> []) [0..<length ds]"

text \<open>Two local constants of the callback that \<open>processRow\<close> embeds, for a row with the
  address column \<open>ak\<close>: the zip code handed to the geocoder, and \<open>updatedRow\<close> as it stands
  after the address step, when the coordinate validation starts.\<close>

definition zipcodeOf :: "'n arith \<Rightarrow> 'n addressData \<Rightarrow> string option" where
  "zipcodeOf ops d =
     (case foundKey (zipKey d) of
        Some zk \<Rightarrow> Some (trim (stringOrEmpty ops (getProp (row d) zk)))
      | None \<Rightarrow> None)"

definition updatedRowOf :: "string list \<Rightarrow> nat \<Rightarrow> string \<Rightarrow> 'n addressData \<Rightarrow> 'n jsval obj" where
  "updatedRowOf correctedAddresses idx ak d =
     (if correctionAt correctedAddresses idx (originalAddress' d) \<noteq> originalAddress' d
      then setProp ak (JStr (correctionAt correctedAddresses idx (originalAddress' d))) (objectEntries (row d))
      else objectEntries (row d))"


chapter \<open>Properties\<close>

section \<open>Strings and objects\<close>

lemma isSpace_space: "isSpace (CHR 0x20)"
  by (simp add: isSpace_def)

lemma trim_Nil: "trim [] = []"
  by (simp add: trim_def)

lemma collapseFrom_idem: "collapseFrom b (collapseFrom b s) = collapseFrom b s"
  by (induction s arbitrary: b) (auto simp: isSpace_space)

lemma collapseFrom_length: "length (collapseFrom b s) \<le> length s"
  by (induction s arbitrary: b) (auto simp: le_SucI)

lemma collapseFrom_prefix:
  "collapseFrom b (p @ q) = p @ q \<Longrightarrow> collapseFrom b p = p"
proof (induction p arbitrary: b)
  case Nil
  then show ?case by simp
next
  case (Cons c p)
  show ?case
  proof (cases "isSpace c")
    case False
    with Cons show ?thesis by simp
  next
    case True
    show ?thesis
    proof (cases b)
      case True
      with \<open>isSpace c\<close> Cons.prems have "collapseFrom True (p @ q) = c # p @ q" by simp
      then have "length (c # p @ q) \<le> length (p @ q)"
        using collapseFrom_length [of True "p @ q"] by simp
      then show ?thesis by simp
    next
      case False
      with \<open>isSpace c\<close> Cons show ?thesis by (simp add: isSpace_space)
    qed
  qed
qed

lemma trim_edgesOk: "edgesOk (trim s)"
proof -
  let ?t = "dropWhile isSpace s"
  let ?u = "dropWhile isSpace (rev ?t)"
  show ?thesis
  proof (cases "?u = []")
    case True
    then show ?thesis by (simp add: edgesOk_def trim_def)
  next
    case False
    then have h: "\<not> isSpace (hd ?u)" using hd_dropWhile by blast
    from False have "?t \<noteq> []" by (metis dropWhile.simps(1) rev.simps(1))
    then have ht: "\<not> isSpace (hd ?t)" using hd_dropWhile by blast
    have "rev ?t = takeWhile isSpace (rev ?t) @ ?u" by simp
    then have "?t = rev ?u @ rev (takeWhile isSpace (rev ?t))"
      by (metis rev_append rev_rev_ident)
    then have "hd ?t = hd (rev ?u)" using False by (metis hd_append2 rev_is_Nil_conv)
    with ht h False show ?thesis
      by (simp add: edgesOk_def trim_def last_rev)
  qed
qed

lemma trim_id: "edgesOk s \<Longrightarrow> trim s = s"
proof (cases "s = []")
  case True
  then show ?thesis by (simp add: trim_def)
next
  case False
  assume "edgesOk s"
  with False have a: "\<not> isSpace (hd s)" and b: "\<not> isSpace (last s)"
    by (auto simp: edgesOk_def)
  from a False have "dropWhile isSpace s = s" by (cases s) auto
  moreover from b False have "dropWhile isSpace (rev s) = rev s"
    by (cases "rev s") (auto simp: last_rev [symmetric] hd_rev)
  ultimately show ?thesis by (simp add: trim_def)
qed

lemma collapseFrom_last:
  "s \<noteq> [] \<Longrightarrow> \<not> isSpace (last s) \<Longrightarrow> collapseFrom b s \<noteq> [] \<and> last (collapseFrom b s) = last s"
proof (induction s arbitrary: b)
  case Nil
  then show ?case by simp
next
  case (Cons c s)
  show ?case
  proof (cases "s = []")
    case True
    with Cons.prems show ?thesis by simp
  next
    case False
    with Cons.prems have "\<not> isSpace (last s)" by simp
    with False Cons.IH have "\<And>b. collapseFrom b s \<noteq> [] \<and> last (collapseFrom b s) = last s"
      by blast
    with False show ?thesis by simp
  qed
qed

lemma collapse_edgesOk: "edgesOk s \<Longrightarrow> edgesOk (collapseSpaces s)"
proof (cases "s = []")
  case True
  then show ?thesis by (simp add: collapseSpaces_def edgesOk_def)
next
  case False
  assume "edgesOk s"
  with False have a: "\<not> isSpace (hd s)" and b: "\<not> isSpace (last s)"
    by (auto simp: edgesOk_def)
  from False a have "hd (collapseFrom False s) = hd s" by (cases s) auto
  with a collapseFrom_last [OF False b, of False] b show ?thesis
    by (simp add: collapseSpaces_def edgesOk_def)
qed

lemma strIncludes_self: "strIncludes s s"
proof -
  have "startsWith s s" by (induction s) auto
  then show ?thesis by (cases s) auto
qed

lemma getProp_setProp_same: "getProp (setProp k v ob) k = Some v"
  by (induction ob) (auto simp: getProp_def)

lemma getProp_setProp_other: "k' \<noteq> k \<Longrightarrow> getProp (setProp k v ob) k' = getProp ob k'"
  by (induction ob) (auto simp: getProp_def)

lemma getProp_None_iff: "getProp ob k = None \<longleftrightarrow> k \<notin> fst ` set ob"
  by (simp add: getProp_def map_of_eq_None_iff)

lemma setProp_absent: "k \<notin> fst ` set ob \<Longrightarrow> setProp k v ob = ob @ [(k, v)]"
  by (induction ob) auto

lemma setProp_keys_present: "k \<in> fst ` set ob \<Longrightarrow> map fst (setProp k v ob) = map fst ob"
  by (induction ob) auto

lemma setProp_length_present: "k \<in> fst ` set ob \<Longrightarrow> length (setProp k v ob) = length ob"
  by (induction ob) auto

lemma objectEntries_length: "length (objectEntries ob) = length ob"
  by (simp add: objectEntries_def sum_length_filter_compl)

lemma objectEntries_mset: "mset (objectEntries ob) = mset ob"
  by (simp add: objectEntries_def)

text \<open>The enumeration reorders the properties but keeps the value of each of them: the sort is
  stable, and the properties of one name stay in their order.\<close>

lemma map_of_filter_fst:
  "map_of (filter (\<lambda>p. P (fst p)) xs) k = (if P k then map_of xs k else None)"
  by (induction xs) auto

lemma map_of_sort_key_fst: "map_of (sort_key (\<lambda>p. g (fst p)) xs) k = map_of xs k"
proof -
  have "filter (\<lambda>p. fst p = k) (sort_key (\<lambda>p. g (fst p)) xs) =
        filter (\<lambda>p. fst p = k) (filter (\<lambda>p. g (fst p) = g k) (sort_key (\<lambda>p. g (fst p)) xs))"
    by (simp add: conj_commute cong: conj_cong)
  also have "\<dots> = filter (\<lambda>p. fst p = k) (filter (\<lambda>p. g (fst p) = g k) xs)"
    by (simp only: sort_key_stable)
  also have "\<dots> = filter (\<lambda>p. fst p = k) xs"
    by (simp add: conj_commute cong: conj_cong)
  finally have e: "filter (\<lambda>p. fst p = k) (sort_key (\<lambda>p. g (fst p)) xs) = filter (\<lambda>p. fst p = k) xs" .
  have "map_of (sort_key (\<lambda>p. g (fst p)) xs) k =
        map_of (filter (\<lambda>p. fst p = k) (sort_key (\<lambda>p. g (fst p)) xs)) k"
    using map_of_filter_fst [of "\<lambda>x. x = k" "sort_key (\<lambda>p. g (fst p)) xs" k] by simp
  also have "\<dots> = map_of (filter (\<lambda>p. fst p = k) xs) k" by (simp only: e)
  also have "\<dots> = map_of xs k"
    using map_of_filter_fst [of "\<lambda>x. x = k" xs k] by simp
  finally show ?thesis .
qed

lemma getProp_objectEntries: "getProp (objectEntries ob) k = getProp ob k"
proof -
  have a: "map_of (filter (\<lambda>p. isArrayIndex (fst p)) ob) k = (if isArrayIndex k then map_of ob k else None)"
    by (rule map_of_filter_fst)
  have b: "map_of (filter (\<lambda>p. \<not> isArrayIndex (fst p)) ob) k =
           (if \<not> isArrayIndex k then map_of ob k else None)"
    by (rule map_of_filter_fst [of "\<lambda>x. \<not> isArrayIndex x"])
  have c: "map_of (sort_key (\<lambda>p. indexValue (fst p)) (filter (\<lambda>p. isArrayIndex (fst p)) ob)) k =
           map_of (filter (\<lambda>p. isArrayIndex (fst p)) ob) k"
    by (rule map_of_sort_key_fst)
  show ?thesis
    by (simp add: getProp_def objectEntries_def map_add_def a b c split: option.splits)
qed

section \<open>normalizeAddress\<close>

lemma digit_not_sep: "isDigit c \<Longrightarrow> \<not> isSep c"
  by (auto simp: isDigit_def isSep_def isSpace_def code_def)

text \<open>A match of the tail ends in a digit, is a prefix of the string, and is matched again
  when it stands alone.\<close>

lemma matchSepDigits_Some:
  assumes "matchSepDigits s = Some m"
  shows "m \<noteq> [] \<and> isDigit (last m) \<and> (\<exists>q. s = m @ q) \<and> matchSepDigits m = Some m \<and> hd m = hd s"
proof -
  let ?seps = "takeWhile isSep s"
  let ?rest = "dropWhile isSep s"
  let ?ds = "takeWhile isDigit ?rest"
  from assms have seps: "?seps \<noteq> []" and ds: "?ds \<noteq> []" and m: "m = ?seps @ ?ds"
    by (auto simp: matchSepDigits_def Let_def split: if_splits)
  have s: "s = ?seps @ ?ds @ dropWhile isDigit ?rest" by simp
  have "last ?ds \<in> set ?ds" using ds by simp
  then have ld: "isDigit (last ?ds)" by (meson set_takeWhileD)
  have "hd ?ds \<in> set ?ds" using ds by simp
  then have hdd: "isDigit (hd ?ds)" by (meson set_takeWhileD)
  then have nsep: "\<not> isSep (hd ?ds)" by (rule digit_not_sep)
  have tw: "takeWhile isSep (?seps @ ?ds) = ?seps"
    using ds nsep by (cases ?ds) (auto simp: takeWhile_tail dest: set_takeWhileD)
  have dw: "dropWhile isSep (?seps @ ?ds) = ?ds"
    using ds nsep by (cases ?ds) (auto simp: dropWhile_append3 dropWhile_append dest: set_takeWhileD)
  have td: "takeWhile isDigit ?ds = ?ds" by simp
  have again: "matchSepDigits m = Some m"
    unfolding m matchSepDigits_def Let_def tw dw td using seps ds by simp
  have hm: "hd m = hd s" using seps m by (metis hd_append2 s)
  have lm: "last m = last ?ds" using ds m by simp
  have sm: "s = m @ dropWhile isDigit ?rest" using s m by simp
  from seps m have "m \<noteq> []" by simp
  with lm ld sm again hm show ?thesis by auto
qed

text \<open>Cutting a string short cannot create a match of the tail.\<close>

lemma matchSepDigits_None_prefix:
  assumes "matchSepDigits (x @ y) = None"
  shows "matchSepDigits x = None"
proof (rule ccontr)
  assume "matchSepDigits x \<noteq> None"
  then obtain m where "matchSepDigits x = Some m" by auto
  from matchSepDigits_Some [OF this] obtain q where m: "matchSepDigits m = Some m" and x: "x = m @ q"
    by blast
  let ?seps = "takeWhile isSep m"
  let ?rest = "dropWhile isSep m"
  from m have seps: "?seps \<noteq> []" and ds: "takeWhile isDigit ?rest \<noteq> []"
    by (auto simp: matchSepDigits_def Let_def split: if_splits)
  from ds have rest: "?rest \<noteq> []" by (metis takeWhile.simps(1))
  then have hr: "\<not> isSep (hd ?rest)" by (rule hd_dropWhile)
  from rest have "hd ?rest \<in> set m" by (metis hd_in_set set_dropWhileD)
  with hr have tw: "takeWhile isSep (m @ (q @ y)) = ?seps" and dw: "dropWhile isSep (m @ (q @ y)) = ?rest @ (q @ y)"
    by (auto simp: takeWhile_append1 dropWhile_append1)
  from ds rest have "isDigit (hd ?rest)" by (cases ?rest) (auto split: if_splits)
  with rest have "takeWhile isDigit (?rest @ (q @ y)) \<noteq> []" by (cases ?rest) auto
  with seps tw dw have "matchSepDigits (m @ (q @ y)) \<noteq> None"
    by (simp add: matchSepDigits_def Let_def)
  with assms x show False by simp
qed

text \<open>The text the pattern matches is a prefix of the string that ends in a digit, and the
  pattern matches all of it when it stands alone.\<close>

lemma matchStreetNumber_Some:
  "matchStreetNumber pre s = Some r \<Longrightarrow>
     \<exists>p q. r = pre @ p \<and> s = p @ q \<and> p \<noteq> [] \<and> isDigit (last p) \<and> hd p = hd s \<and>
           matchStreetNumber pre p = Some (pre @ p)"
proof (induction s arbitrary: pre r)
  case Nil
  then show ?case by simp
next
  case (Cons c cs)
  show ?case
  proof (cases "if pre = [] then None else matchSepDigits (c # cs)")
    case (Some m)
    then have pre: "pre \<noteq> []" and ms: "matchSepDigits (c # cs) = Some m"
      by (auto split: if_splits)
    from Some Cons.prems have r: "r = pre @ m" by simp
    from matchSepDigits_Some [OF ms] have
      m: "m \<noteq> []" "isDigit (last m)" "\<exists>q. c # cs = m @ q" "matchSepDigits m = Some m" "hd m = c"
      by simp_all
    from m(1,5) obtain m' where m': "m = c # m'" by (cases m) simp_all
    have again: "matchStreetNumber pre m = Some (pre @ m)"
      using pre m(4) unfolding m' by simp
    from m(3) obtain q where q: "c # cs = m @ q" by blast
    show ?thesis
      by (rule exI [of _ m], rule exI [of _ q]) (simp add: r q m again)
  next
    case None
    with Cons.prems have nl: "\<not> isLineTerminator c"
      and rec: "matchStreetNumber (pre @ [c]) cs = Some r"
      by (auto split: if_splits)
    from Cons.IH [OF rec] obtain p q where
      p: "r = (pre @ [c]) @ p" "cs = p @ q" "p \<noteq> []" "isDigit (last p)"
         "matchStreetNumber (pre @ [c]) p = Some ((pre @ [c]) @ p)"
      by blast
    have "(if pre = [] then None else matchSepDigits (c # p)) = None"
    proof (cases "pre = []")
      case True
      then show ?thesis by simp
    next
      case False
      with None have "matchSepDigits ((c # p) @ q) = None" using p(2) by simp
      then have "matchSepDigits (c # p) = None" by (rule matchSepDigits_None_prefix)
      then show ?thesis by simp
    qed
    then have "matchStreetNumber pre (c # p) = Some (pre @ (c # p))"
      using nl p(5) by simp
    with p show ?thesis by (intro exI [of _ "c # p"] exI [of _ q]) simp
  qed
qed

text \<open>Some values of the function, among them the examples of the specification.\<close>

lemma normalizeAddress_examples:
  "normalizeAddress ''Rua A, 10, Apto 2'' = ''Rua A, 10''"
  "normalizeAddress ''Rua A, 10, Casa'' = ''Rua A, 10''"
  "normalizeAddress ''Rua A, 100'' = ''Rua A, 100''"
  "normalizeAddress ''  Rua  Justo de Morais,   21, Casa'' = ''Rua Justo de Morais, 21''"
  "normalizeAddress ''Av Brasil 1500 bl 2'' = ''Av Brasil 1500''"
  "normalizeAddress ''Travessa sem numero'' = ''Travessa sem numero''"
  by code_simp+

text \<open>
  \<^bold>\<open>Claim C5.\<close> For every address string \<open>a\<close>, \<open>normalizeAddress\<close> is idempotent:
  normalising a normalised address gives it back.
\<close>

lemma normalizeAddress_idempotent: "normalizeAddress (normalizeAddress a) = normalizeAddress a"
proof -
  let ?cl = "collapseSpaces (trim a)"
  have ok: "edgesOk ?cl" by (simp add: trim_edgesOk collapse_edgesOk)
  have cc: "collapseSpaces ?cl = ?cl" by (simp add: collapseSpaces_def collapseFrom_idem)
  show ?thesis
  proof (cases "matchStreetNumber [] ?cl")
    case None
    then have "normalizeAddress a = ?cl" by (simp add: normalizeAddress_def)
    moreover have "normalizeAddress ?cl = ?cl"
      using None ok cc by (simp add: normalizeAddress_def trim_id)
    ultimately show ?thesis by simp
  next
    case (Some r)
    from matchStreetNumber_Some [OF Some] obtain p q where
      pq: "r = [] @ p" "?cl = p @ q" "p \<noteq> []" "isDigit (last p)" "hd p = hd ?cl"
         "matchStreetNumber [] p = Some ([] @ p)"
      by blast
    then have r: "?cl = r @ q" "r \<noteq> []" "isDigit (last r)" "hd r = hd ?cl"
         "matchStreetNumber [] r = Some r"
      by simp_all
    from r(1,2) have "?cl \<noteq> []" by auto
    with ok have "\<not> isSpace (hd ?cl)" by (simp add: edgesOk_def)
    moreover from r(3) have "\<not> isSpace (last r)"
      using digit_not_sep by (auto simp: isSep_def)
    ultimately have er: "edgesOk r" using r(4) by (simp add: edgesOk_def)
    then have tr: "trim r = r" by (rule trim_id)
    have "collapseFrom False (r @ q) = r @ q" using cc r(1) by (simp add: collapseSpaces_def)
    then have cr: "collapseSpaces r = r" unfolding collapseSpaces_def by (rule collapseFrom_prefix)
    from Some tr have "normalizeAddress a = r" by (simp add: normalizeAddress_def)
    moreover have "normalizeAddress r = r"
      using tr cr r(5) by (simp add: normalizeAddress_def)
    ultimately show ?thesis by simp
  qed
qed

section \<open>Grouping\<close>

lemma setProp_mset_present:
  "distinct (map fst g) \<Longrightarrow> getProp g k = Some b \<Longrightarrow>
   mset (concat (map snd (setProp k (b @ [r]) g))) = mset (concat (map snd g)) + {#r#}"
proof (induction g)
  case Nil
  then show ?case by (simp add: getProp_def)
next
  case (Cons p g)
  show ?case
  proof (cases "fst p = k")
    case True
    with Cons.prems have "snd p = b" by (simp add: getProp_def)
    with True show ?thesis by simp
  next
    case False
    with Cons.prems have "getProp g k = Some b" "distinct (map fst g)"
      by (simp_all add: getProp_def)
    with Cons.IH False show ?thesis by simp
  qed
qed

lemma setProp_list_all:
  assumes "distinct (map fst g)" "getProp g k = Some b" "list_all P g" "Q (k, b')"
    and "\<And>p. p \<in> set g \<Longrightarrow> fst p \<noteq> k \<Longrightarrow> P p \<Longrightarrow> Q p"
  shows "list_all Q (setProp k b' g)"
  using assms
proof (induction g)
  case Nil
  then show ?case by (simp add: getProp_def)
next
  case (Cons p g)
  show ?case
  proof (cases "fst p = k")
    case True
    with Cons.prems(1) have "k \<notin> fst ` set g" by simp
    then have "\<And>q. q \<in> set g \<Longrightarrow> fst q \<noteq> k" by force
    with Cons.prems(3,5) have "list_all Q g" by (auto simp: list_all_iff)
    with True Cons.prems(4) show ?thesis by simp
  next
    case False
    with Cons.prems have "getProp g k = Some b" "distinct (map fst g)" "list_all P g"
      by (simp_all add: getProp_def)
    with Cons.IH Cons.prems(4,5) have "list_all Q (setProp k b' g)" by simp
    moreover from False Cons.prems(3,5) have "Q p" by simp
    ultimately show ?thesis using False by simp
  qed
qed

lemma setProp_buckets_present:
  assumes "distinct (map fst g)" "getProp g k = Some b" "keyf r = k"
    and "list_all (\<lambda>p. snd p = filter (\<lambda>x. keyf x = fst p) seen \<and> snd p \<noteq> []) g"
  shows "list_all (\<lambda>p. snd p = filter (\<lambda>x. keyf x = fst p) (seen @ [r]) \<and> snd p \<noteq> [])
           (setProp k (b @ [r]) g)"
proof (rule setProp_list_all [OF assms(1,2,4)])
  from assms(2) have "(k, b) \<in> set g" by (simp add: getProp_def map_of_SomeD)
  with assms(4) have "b = filter (\<lambda>x. keyf x = k) seen" by (auto simp: list_all_iff)
  with assms(3)
  show "snd (k, b @ [r]) = filter (\<lambda>x. keyf x = fst (k, b @ [r])) (seen @ [r]) \<and> snd (k, b @ [r]) \<noteq> []"
    by simp
next
  fix p :: "string \<times> 'a list"
  assume "fst p \<noteq> k" "snd p = filter (\<lambda>x. keyf x = fst p) seen \<and> snd p \<noteq> []"
  with assms(3) show "snd p = filter (\<lambda>x. keyf x = fst p) (seen @ [r]) \<and> snd p \<noteq> []"
    by auto
qed

text \<open>One step of the loop keeps the invariant and adds at most one bucket.\<close>

lemma addRow_inv:
  assumes "groupedInv (keyOf ops ac) g seen" and "addRow ops ac g rw = Inr g'"
  shows "groupedInv (keyOf ops ac) g' (seen @ [rw]) \<and> length g' \<le> Suc (length g)"
proof (cases "getProp g (keyOf ops ac rw)")
  case None
  then have nk: "keyOf ops ac rw \<notin> fst ` set g" by (simp add: getProp_None_iff)
  with None assms(2) have g': "g' = g @ [(keyOf ops ac rw, [rw])]"
    by (auto simp: addRow_def keyOf_def Let_def setProp_absent split: if_splits)
  from nk have "\<And>q. q \<in> set g \<Longrightarrow> keyOf ops ac rw \<noteq> fst q" by force
  with assms(1) have "list_all (\<lambda>p. snd p = filter (\<lambda>x. keyOf ops ac x = fst p) (seen @ [rw]) \<and> snd p \<noteq> []) g"
    by (auto simp: groupedInv_def list_all_iff)
  moreover have "filter (\<lambda>x. keyOf ops ac x = keyOf ops ac rw) seen = []"
  proof (rule ccontr)
    assume "filter (\<lambda>x. keyOf ops ac x = keyOf ops ac rw) seen \<noteq> []"
    then obtain x where x: "x \<in> set seen" "keyOf ops ac x = keyOf ops ac rw"
      by (auto simp: filter_empty_conv)
    from assms(1) have "mset (concat (map snd g)) = mset seen" by (simp add: groupedInv_def)
    then have "set (concat (map snd g)) = set seen" by (metis set_mset_mset)
    with x(1) have "x \<in> set (concat (map snd g))" by simp
    then obtain p where "p \<in> set g" "x \<in> set (snd p)" by auto
    with assms(1) have "keyOf ops ac x = fst p" by (auto simp: groupedInv_def list_all_iff)
    with \<open>p \<in> set g\<close> \<open>keyOf ops ac x = keyOf ops ac rw\<close> nk show False by force
  qed
  ultimately show ?thesis using assms(1) nk by (simp add: g' groupedInv_def)
next
  case (Some b)
  with assms(2) have g': "g' = setProp (keyOf ops ac rw) (b @ [rw]) g"
    by (simp add: addRow_def keyOf_def Let_def)
  from Some have k: "keyOf ops ac rw \<in> fst ` set g"
    using getProp_None_iff [of g "keyOf ops ac rw"] by simp
  from assms(1) have d: "distinct (map fst g)" by (simp add: groupedInv_def)
  have "list_all (\<lambda>p. snd p = filter (\<lambda>x. keyOf ops ac x = fst p) (seen @ [rw]) \<and> snd p \<noteq> []) g'"
    unfolding g' using assms(1) by (intro setProp_buckets_present [OF d Some]) (simp_all add: groupedInv_def)
  moreover have "mset (concat (map snd g')) = mset (seen @ [rw])"
    unfolding g' using assms(1) setProp_mset_present [OF d Some] by (simp add: groupedInv_def)
  ultimately show ?thesis using d k by (simp add: g' groupedInv_def setProp_keys_present setProp_length_present)
qed

lemma groupRows_inv:
  "groupedInv (keyOf ops ac) g seen \<Longrightarrow> groupRows ops ac g rws = Inr g' \<Longrightarrow>
   groupedInv (keyOf ops ac) g' (seen @ rws) \<and> length g' \<le> length g + length rws"
proof (induction rws arbitrary: g seen)
  case Nil
  then show ?case by simp
next
  case (Cons rw rws)
  from Cons.prems(2) obtain g1 where a: "addRow ops ac g rw = Inr g1"
    and r: "groupRows ops ac g1 rws = Inr g'"
    by (auto split: sum.splits)
  from addRow_inv [OF Cons.prems(1) a] have i1: "groupedInv (keyOf ops ac) g1 (seen @ [rw])"
    and l1: "length g1 \<le> Suc (length g)" by simp_all
  from Cons.IH [OF i1 r] l1 show ?case by simp
qed

text \<open>The loop fails only with the \<open>TypeError\<close> of a key that the dictionary inherits, and
  it does fail when a row has such a key.\<close>

lemma groupRows_error:
  "groupRows ops ac g rws = Inl e \<Longrightarrow>
   e = TypeError \<and> (\<exists>r \<in> set rws. keyOf ops ac r \<in> set objectPrototypeKeys)"
proof (induction rws arbitrary: g)
  case Nil
  then show ?case by simp
next
  case (Cons rw rws)
  show ?case
  proof (cases "addRow ops ac g rw")
    case (Inl e')
    with Cons.prems have "e' = e" by simp
    with Inl show ?thesis
      by (auto simp: addRow_def keyOf_def Let_def split: option.splits if_splits)
  next
    case (Inr g1)
    with Cons.prems have "groupRows ops ac g1 rws = Inl e" by simp
    from Cons.IH [OF this] show ?thesis by simp
  qed
qed

lemma groupRows_succeeds:
  "\<forall>r \<in> set rws. keyOf ops ac r \<notin> set objectPrototypeKeys \<Longrightarrow>
   \<exists>g'. groupRows ops ac g rws = Inr g'"
  using groupRows_error [of ops ac g rws] by (cases "groupRows ops ac g rws") auto

lemma groupRows_aborts:
  "\<forall>k \<in> fst ` set g. k \<notin> set objectPrototypeKeys \<Longrightarrow>
   \<exists>r \<in> set rws. keyOf ops ac r \<in> set objectPrototypeKeys \<Longrightarrow>
   groupRows ops ac g rws = Inl TypeError"
proof (induction rws arbitrary: g)
  case Nil
  then show ?case by simp
next
  case (Cons r rws)
  show ?case
  proof (cases "keyOf ops ac r \<in> set objectPrototypeKeys")
    case True
    with Cons.prems(1) have "keyOf ops ac r \<notin> fst ` set g" by blast
    then have "getProp g (keyOf ops ac r) = None" by (simp add: getProp_None_iff)
    with True have "addRow ops ac g r = Inl TypeError"
      by (simp add: addRow_def keyOf_def Let_def)
    then show ?thesis by simp
  next
    case False
    with Cons.prems(2) have ex: "\<exists>r \<in> set rws. keyOf ops ac r \<in> set objectPrototypeKeys" by simp
    show ?thesis
    proof (cases "addRow ops ac g r")
      case (Inl e)
      then have "groupRows ops ac g [r] = Inl e" by simp
      from groupRows_error [OF this] have "e = TypeError" by (rule conjunct1)
      with Inl show ?thesis by simp
    next
      case (Inr g1)
      have keys: "fst ` set g1 \<subseteq> insert (keyOf ops ac r) (fst ` set g)"
      proof (cases "getProp g (keyOf ops ac r)")
        case None
        then have k: "keyOf ops ac r \<notin> fst ` set g" by (simp add: getProp_None_iff)
        from None Inr have "g1 = setProp (keyOf ops ac r) [r] g"
          by (simp add: addRow_def keyOf_def Let_def split: if_splits)
        with k have "g1 = g @ [(keyOf ops ac r, [r])]" by (simp add: setProp_absent)
        then have "fst ` set g1 = insert (keyOf ops ac r) (fst ` set g)" by simp
        then show ?thesis by (simp only: subset_refl)
      next
        case (Some b)
        then have k: "keyOf ops ac r \<in> fst ` set g"
          using getProp_None_iff [of g "keyOf ops ac r"] by simp
        from Some Inr have "g1 = setProp (keyOf ops ac r) (b @ [r]) g"
          by (simp add: addRow_def keyOf_def Let_def)
        with k have "map fst g1 = map fst g" by (simp add: setProp_keys_present)
        then have "set (map fst g1) = set (map fst g)" by (rule arg_cong)
        then have "fst ` set g1 = fst ` set g" by (simp only: set_map)
        then show ?thesis by (simp only: subset_insertI)
      qed
      have "\<forall>k \<in> fst ` set g1. k \<notin> set objectPrototypeKeys"
      proof
        fix k assume "k \<in> fst ` set g1"
        with keys have "k = keyOf ops ac r \<or> k \<in> fst ` set g" by (meson insertE subsetD)
        with False Cons.prems(1) show "k \<notin> set objectPrototypeKeys" by (metis)
      qed
      from Cons.IH [OF this ex] Inr show ?thesis by simp
    qed
  qed
qed

text \<open>When the loop returns, there are at most as many buckets as rows, the keys are
  distinct, the bucket of a key is the list of the rows with that key in sheet order, and the
  buckets together hold every row exactly as often as the sheet does.\<close>

theorem groupRows_partition:
  assumes "groupRows ops ac [] rws = Inr grouped"
  shows "length (objectEntries grouped) \<le> length rws \<and>
         distinct (map fst grouped) \<and>
         mset (concat (map snd grouped)) = mset rws \<and>
         (\<forall>p \<in> set grouped. snd p = filter (\<lambda>r. keyOf ops ac r = fst p) rws \<and> snd p \<noteq> [])"
proof -
  have "groupedInv (keyOf ops ac) [] []" by (simp add: groupedInv_def)
  from groupRows_inv [OF this assms]
  have inv: "groupedInv (keyOf ops ac) grouped rws" and len: "length grouped \<le> length rws"
    by simp_all
  from inv have "distinct (map fst grouped)" "mset (concat (map snd grouped)) = mset rws"
    and "\<forall>p \<in> set grouped. snd p = filter (\<lambda>r. keyOf ops ac r = fst p) rws \<and> snd p \<noteq> []"
    unfolding groupedInv_def list_all_iff by blast+
  with len show ?thesis unfolding objectEntries_length by blast
qed

theorem groupAndMerge_count:
  assumes "groupAndMerge ops jsonData = Inr results"
  shows "length results \<le> length jsonData"
proof -
  from assms obtain ac grouped where g: "groupRows ops ac [] jsonData = Inr grouped"
    and r: "length results = length (objectEntries grouped)"
    by (auto simp: groupAndMerge_def Let_def simp del: groupRows.simps
        split: list.splits option.splits if_splits sum.splits)
  from groupRows_partition [OF g] r show ?thesis by simp
qed

lemma keyOf_constructor: "keyOf ops ''Address'' [(''Address'', JStr ''constructor''), (''Sequence'', JStr ''S2'')] = ''constructor''"
proof -
  have "normalizeAddress ''constructor'' = ''constructor''" by code_simp
  moreover have "trim ''constructor'' = ''constructor''" by code_simp
  ultimately show ?thesis by (simp add: keyOf_def getProp_def stringOrEmpty_def)
qed

lemma objectKeys_example: "objectKeys [(''Address'', JStr a), (''Sequence'', JStr b)] = [''Address'', ''Sequence'']"
  by (simp add: objectKeys_def objectEntries_def isArrayIndex_def isDigit_def code_def)

lemma isAddressColumn_Address: "isAddressColumn ''Address''"
  by code_simp

text \<open>
  \<^bold>\<open>Claim C4.\<close> For every set of input rows, the grouping step produces at most as many
  merged rows as there are rows, and every row is placed into exactly one bucket. This holds
  whenever the grouping returns (\<open>groupRows_partition\<close>, \<open>groupAndMerge_count\<close>), but it does not
  always return: a row whose normalised address is a property name that an object literal
  inherits makes \<open>grouped[normalizedAddress]\<close> read the inherited function, no bucket is created
  and \<open>push\<close> throws. Here the second row has the address \<open>constructor\<close>, and \<open>processFile\<close>
  ends in its \<open>catch\<close> with no row grouped.
\<close>

theorem grouping_aborts_on_inherited_key:
  "groupAndMerge exampleArith rowsConstructor = Inl TypeError"
proof -
  have "groupRows exampleArith ''Address'' [] rowsConstructor = Inl TypeError"
    by (rule groupRows_aborts) (simp_all add: rowsConstructor_def keyOf_constructor objectPrototypeKeys_def)
  then show ?thesis
    by (simp add: groupAndMerge_def rowsConstructor_def Let_def objectKeys_example
        isAddressColumn_Address)
qed

section \<open>The merged sequence value\<close>

lemma sequenceValues_alt:
  "sequenceValues ops sc rws =
     filter (\<lambda>s. trim s \<noteq> []) (map (\<lambda>r. stringOrEmpty ops (getProp r sc)) rws)"
proof -
  have "(\<lambda>s. s \<noteq> [] \<and> trim s \<noteq> []) = (\<lambda>s. trim s \<noteq> [])"
    using trim_Nil by auto
  then show ?thesis by (simp add: sequenceValues_def)
qed

lemma mergeGroup_sequence:
  "sc \<noteq> [] \<Longrightarrow>
   getProp (mergeGroup ops (Some sc) rws) sc = Some (JStr (joinWith ''; '' (sequenceValues ops sc rws)))"
  by (simp add: mergeGroup_def Let_def getProp_setProp_same)

text \<open>
  \<^bold>\<open>Claim C6, as amended.\<close> For every group of rows with a known sequence column, the merged
  row's sequence value is the \<open>"; "\<close>-joined list, in bucket order, of the values \<open>String(v || '')\<close>
  of the rows that are not blank, each as it is stored: the values are tested with \<open>trim\<close> but
  joined untrimmed. When no kept value has white space at its ends, this is the value the
  specification describes.
\<close>

theorem merged_sequence_value:
  assumes "sc \<noteq> []"
  shows "getProp (mergeGroup ops (Some sc) rws) sc =
           Some (JStr (joinWith ''; ''
              (filter (\<lambda>s. trim s \<noteq> []) (map (\<lambda>r. stringOrEmpty ops (getProp r sc)) rws)))) \<and>
         ((\<forall>r \<in> set rws. trim (stringOrEmpty ops (getProp r sc)) = stringOrEmpty ops (getProp r sc)) \<longrightarrow>
          getProp (mergeGroup ops (Some sc) rws) sc = Some (JStr (claimedSequence ops sc rws)))"
proof -
  have m: "getProp (mergeGroup ops (Some sc) rws) sc =
           Some (JStr (joinWith ''; ''
              (filter (\<lambda>s. trim s \<noteq> []) (map (\<lambda>r. stringOrEmpty ops (getProp r sc)) rws))))"
    using assms by (simp add: mergeGroup_sequence sequenceValues_alt)
  have "map trim (filter (\<lambda>s. trim s \<noteq> []) (map (\<lambda>r. stringOrEmpty ops (getProp r sc)) rws)) =
        filter (\<lambda>s. trim s \<noteq> []) (map (\<lambda>r. stringOrEmpty ops (getProp r sc)) rws)"
    if "\<forall>r \<in> set rws. trim (stringOrEmpty ops (getProp r sc)) = stringOrEmpty ops (getProp r sc)"
    using that by (induction rws) auto
  with m show ?thesis by (simp add: claimedSequence_def)
qed

lemma ex_S1S3: "joinWith ''; '' (filter (\<lambda>s. trim s \<noteq> []) (map (\<lambda>r. stringOrEmpty exampleArith (getProp r ''Sequence'')) rowsS1S3)) = ''S1; S3''"
  by (simp add: rowsS1S3_def getProp_def stringOrEmpty_def trim_def isSpace_def)

text \<open>The example of the specification: the values \<open>S1\<close>, the empty string and \<open>S3\<close> give
  \<open>S1; S3\<close>.\<close>

theorem merged_sequence_value_witness:
  "''Sequence'' \<noteq> [] \<and>
   getProp (mergeGroup exampleArith (Some ''Sequence'') rowsS1S3) ''Sequence'' = Some (JStr ''S1; S3'')"
  using merged_sequence_value [of "''Sequence''" exampleArith rowsS1S3] by (simp add: ex_S1S3)

text \<open>The claim as stated fails for a value with white space at an end: the code joins
  \<open>" S1"\<close> and \<open>"S3"\<close> to \<open>" S1; S3"\<close>, the trimmed join is \<open>"S1; S3"\<close>.\<close>

theorem merged_sequence_not_trimmed:
  "getProp (mergeGroup exampleArith (Some ''Sequence'') rowsUntrimmed) ''Sequence'' = Some (JStr '' S1; S3'') \<and>
   claimedSequence exampleArith ''Sequence'' rowsUntrimmed = ''S1; S3''"
proof -
  have v: "map (\<lambda>r. stringOrEmpty exampleArith (getProp r ''Sequence'')) rowsUntrimmed = ['' S1'', ''S3'']"
    by (simp add: rowsUntrimmed_def getProp_def stringOrEmpty_def)
  have t: "trim '' S1'' = ''S1''" "trim ''S3'' = ''S3''"
    by (simp_all add: trim_def isSpace_def)
  from v t show ?thesis
    by (simp add: mergeGroup_sequence sequenceValues_alt claimedSequence_def)
qed


section \<open>Locality validation\<close>

lemma bairroMatches_iff: "bairroMatches expBairro gBairro \<longleftrightarrow> expBairro = [] \<or> gBairro \<noteq> []"
  by (simp add: bairroMatches_def strIncludes_self)

lemma stateMatches_iff: "stateMatches expState gState \<longleftrightarrow> expState = [] \<or> gState \<noteq> []"
  by (simp add: stateMatches_def strIncludes_self)

lemma normalizeText_empty: "normalizeText (Some []) = []"
  by (simp add: normalizeText_def)

text \<open>Without an expected city no result is accepted: the city check asks for one.\<close>

lemma no_city_no_match:
  "strOr (cidade expected) [] = [] \<Longrightarrow> \<not> addressMatchesExpected a expected"
  by (cases a) (simp_all add: addressMatchesExpected_def Let_def cityMatches_def normalizeText_empty)

lemma expectedOf_cidade: "cidade (expectedOf rw) = cidade rw"
  by (simp add: expectedOf_def)

text \<open>Some values of \<open>normalizeText\<close>.\<close>

lemma normalizeText_examples:
  "normalizeText (Some ''Av. Paulista, 1000'') = ''avenida paulista, 1000''"
  "normalizeText (Some ''R. das Flores'') = ''rua das flores''"
  "normalizeText (Some (''S'' @ [CHR 0xE3] @ ''o Paulo'')) = ''sao paulo''"
  "normalizeText (Some ''Proximo ao mercado (perto de casa)'') = ''ao mercado casa''"
  by code_simp+

lemma ex_search: "nominatimSearch exampleHttp q = Inr (Some exampleResult)"
  by (simp add: nominatimSearch_def exampleHttp_def)

lemma ex_match: "addressMatchesExpected (Some (addressOrEmpty exampleResult)) (expectedOf rowWithHints)"
  by code_simp

text \<open>
  \<^bold>\<open>Claim C8.\<close> The neighbourhood check of \<open>addressMatchesExpected\<close> returns true exactly when
  no expected neighbourhood is given, or when the returned neighbourhood contains the expected
  one or the expected one contains the returned one. The code compares the expected value
  with itself in the second test, so the check holds as soon as both values are present
  (\<open>bairroMatches_iff\<close>): an expected \<open>Centro\<close> is matched by a returned \<open>Copacabana\<close>, although
  neither contains the other, and the whole result is accepted.
\<close>

theorem bairro_check_self_reference:
  "bairroMatches (normalizeText (Some ''Centro'')) (normalizeText (Some ''Copacabana'')) \<and>
   \<not> strIncludes (normalizeText (Some ''Copacabana'')) (normalizeText (Some ''Centro'')) \<and>
   \<not> strIncludes (normalizeText (Some ''Centro'')) (normalizeText (Some ''Copacabana'')) \<and>
   addressMatchesExpected (Some (addressOrEmpty exampleResult)) (expectedOf rowWithHints)"
proof -
  have "bairroMatches (normalizeText (Some ''Centro'')) (normalizeText (Some ''Copacabana'')) \<and>
   \<not> strIncludes (normalizeText (Some ''Copacabana'')) (normalizeText (Some ''Centro'')) \<and>
   \<not> strIncludes (normalizeText (Some ''Centro'')) (normalizeText (Some ''Copacabana''))"
    by code_simp
  with ex_match show ?thesis by simp
qed

section \<open>The resolver\<close>

text \<open>The loop body by the answers to the first two searches.\<close>

lemma resolveRow_cases:
  "resolveRow http rw =
     (case nominatimSearch http (buildStructuredParams rw) of
        Inr (Some f) \<Rightarrow> validateFound http rw f (''structured:'', buildStructuredParams rw) []
      | Inr None \<Rightarrow>
          (case nominatimSearch http (buildFreeTextParam rw) of
             Inr (Some f) \<Rightarrow> validateFound http rw f (''freetext:'', buildFreeTextParam rw) []
           | Inr None \<Rightarrow> mkResult rw Pending None (''freetext:'', buildFreeTextParam rw) ''nao-encontrado''
           | Inl e \<Rightarrow> mkResult rw Pending None (''freetext:'', buildFreeTextParam rw)
                       ''erro-na-requisicao-freetext'')
      | Inl e \<Rightarrow>
          (case nominatimSearch http (buildFreeTextParam rw) of
             Inr (Some f) \<Rightarrow> validateFound http rw f (''freetext:'', buildFreeTextParam rw)
                               ''erro-na-requisicao-structured''
           | Inr None \<Rightarrow> mkResult rw Pending None (''freetext:'', buildFreeTextParam rw)
                          ''erro-na-requisicao-structured''
           | Inl e' \<Rightarrow> mkResult rw Pending None (''freetext:'', buildFreeTextParam rw)
                        ''erro-na-requisicao-structured;erro-na-requisicao-freetext''))"
  by (simp add: resolveRow_def Let_def appendNote_def split: sum.splits option.splits)

lemma validateFound_status:
  "status (validateFound http rw f used n) =
     (if addressMatchesExpected (Some (addressOrEmpty f)) (expectedOf rw) then Valid
      else (case nominatimSearch http (correctedParams rw) of
              Inr (Some retr) \<Rightarrow>
                if addressMatchesExpected (Some (addressOrEmpty retr)) (expectedOf rw) then Corrected
                else Mismatch
            | _ \<Rightarrow> Mismatch))"
  by (simp add: validateFound_def mkResult_def Let_def split: sum.splits option.splits)

lemma validateFound_coords:
  "\<exists>g. latitude (validateFound http rw f used n) = Some (lat g) \<and>
       longitude (validateFound http rw f used n) = Some (lon g) \<and>
       (status (validateFound http rw f used n) = Mismatch \<longrightarrow>
          g = f \<and> \<not> addressMatchesExpected (Some (addressOrEmpty f)) (expectedOf rw))"
  by (auto simp: validateFound_def mkResult_def Let_def split: sum.splits option.splits)

text \<open>
  \<^bold>\<open>Claim C1, as amended.\<close> For every input row whose locality hints (bairro, cidade, estado)
  are all empty, \<open>addressMatchesExpected\<close> rejects every result, since the city check needs an
  expected city; the row's status is \<open>mismatch\<close> if the structured or the free-text search
  finds a result, and \<open>pending\<close> otherwise. It is never \<open>valid\<close>.
\<close>

theorem empty_hints_never_valid:
  assumes "strOr (bairro rw) [] = []" and "strOr (cidade rw) [] = []" and "strOr (estado rw) [] = []"
  shows "\<not> addressMatchesExpected a (expectedOf rw) \<and>
         status (resolveRow http rw) =
           (if (\<exists>f. nominatimSearch http (buildStructuredParams rw) = Inr (Some f)) \<or>
               (\<exists>f. nominatimSearch http (buildFreeTextParam rw) = Inr (Some f))
            then Mismatch else Pending)"
proof -
  have no: "\<And>a. \<not> addressMatchesExpected a (expectedOf rw)"
    using assms(2) by (intro no_city_no_match) (simp add: expectedOf_cidade)
  have vf: "\<And>f used n. status (validateFound http rw f used n) = Mismatch"
    by (simp add: validateFound_status no split: sum.splits option.splits)
  have "status (resolveRow http rw) =
           (if (\<exists>f. nominatimSearch http (buildStructuredParams rw) = Inr (Some f)) \<or>
               (\<exists>f. nominatimSearch http (buildFreeTextParam rw) = Inr (Some f))
            then Mismatch else Pending)"
    by (simp add: resolveRow_cases vf mkResult_def split: sum.splits option.splits)
  with no show ?thesis by simp
qed

theorem empty_hints_never_valid_witness:
  "strOr (bairro rowWithoutHints) [] = [] \<and> strOr (cidade rowWithoutHints) [] = [] \<and>
   strOr (estado rowWithoutHints) [] = [] \<and>
   \<not> addressMatchesExpected (Some (addressOrEmpty exampleResult)) (expectedOf rowWithoutHints) \<and>
   status (resolveRow exampleHttp rowWithoutHints) = Mismatch"
proof -
  have h: "strOr (bairro rowWithoutHints) [] = []" "strOr (cidade rowWithoutHints) [] = []"
    "strOr (estado rowWithoutHints) [] = []"
    by (simp_all add: rowWithoutHints_def strOr_def)
  from empty_hints_never_valid [OF h, of "Some (addressOrEmpty exampleResult)" exampleHttp] h
  show ?thesis by (simp add: ex_search)
qed

text \<open>The claim as stated fails: the row has no hints, the structured search finds a result,
  the result is rejected and the status is \<open>mismatch\<close>.\<close>

theorem empty_hints_result_rejected:
  "bairro rowWithoutHints = None \<and> cidade rowWithoutHints = None \<and> estado rowWithoutHints = None \<and>
   nominatimSearch exampleHttp (buildStructuredParams rowWithoutHints) = Inr (Some exampleResult) \<and>
   \<not> addressMatchesExpected (Some (addressOrEmpty exampleResult)) (expectedOf rowWithoutHints) \<and>
   status (resolveRow exampleHttp rowWithoutHints) = Mismatch"
proof -
  have h: "strOr (cidade rowWithoutHints) [] = []" by (simp add: rowWithoutHints_def strOr_def)
  have no: "\<And>a. \<not> addressMatchesExpected a (expectedOf rowWithoutHints)"
    using h by (intro no_city_no_match) (simp add: expectedOf_cidade)
  have "status (resolveRow exampleHttp rowWithoutHints) = Mismatch"
    by (simp add: resolveRow_cases ex_search validateFound_status no)
  with no show ?thesis by (simp add: ex_search) (simp add: rowWithoutHints_def)
qed

text \<open>The handler returns, for each input row, the output of the loop body.\<close>

lemma batchGeocode_rows:
  "batchGeocode http (Some rws) = Inr ps \<Longrightarrow>
   length ps = length rws \<and> (\<forall>i<length rws. ps ! i = resolveRow (http i) (rws ! i))"
  by (auto simp: batchGeocode_def nth_enumerate_eq)

text \<open>
  \<^bold>\<open>Claim C3.\<close> For every output row of the resolver: if the status is \<open>valid\<close> or \<open>corrected\<close>,
  both coordinates are present; if it is \<open>pending\<close>, both are absent; if it is \<open>mismatch\<close>, both
  are those of a result that the structured or the free-text search returned and that failed
  the validation against the hints of the row.
\<close>

theorem status_coordinates_invariant:
  "(status (resolveRow http rw) = Valid \<or> status (resolveRow http rw) = Corrected \<longrightarrow>
      latitude (resolveRow http rw) \<noteq> None \<and> longitude (resolveRow http rw) \<noteq> None) \<and>
   (status (resolveRow http rw) = Pending \<longrightarrow>
      latitude (resolveRow http rw) = None \<and> longitude (resolveRow http rw) = None) \<and>
   (status (resolveRow http rw) = Mismatch \<longrightarrow>
      (\<exists>f. (nominatimSearch http (buildStructuredParams rw) = Inr (Some f) \<or>
            nominatimSearch http (buildFreeTextParam rw) = Inr (Some f)) \<and>
           latitude (resolveRow http rw) = Some (lat f) \<and>
           longitude (resolveRow http rw) = Some (lon f) \<and>
           \<not> addressMatchesExpected (Some (addressOrEmpty f)) (expectedOf rw)))"
proof -
  have vf: "\<And>f used n. status (validateFound http rw f used n) \<noteq> Pending"
    by (simp add: validateFound_status split: sum.splits option.splits)
  show ?thesis
  proof (cases "nominatimSearch http (buildStructuredParams rw)")
    case (Inr r1)
    show ?thesis
    proof (cases r1)
      case (Some f)
      with Inr validateFound_coords [of http rw f "(''structured:'', buildStructuredParams rw)" "[]"] vf
      show ?thesis by (auto simp: resolveRow_cases)
    next
      case None
      note n1 = None
      show ?thesis
      proof (cases "nominatimSearch http (buildFreeTextParam rw)")
        case (Inl e)
        with Inr n1 show ?thesis by (simp add: resolveRow_cases mkResult_def)
      next
        case (Inr r2)
        note i2 = Inr
        show ?thesis
        proof (cases r2)
          case None
          with \<open>nominatimSearch http (buildStructuredParams rw) = Inr r1\<close> n1 i2 show ?thesis
            by (simp add: resolveRow_cases mkResult_def)
        next
          case (Some f)
          with \<open>nominatimSearch http (buildStructuredParams rw) = Inr r1\<close> n1 i2
            validateFound_coords [of http rw f "(''freetext:'', buildFreeTextParam rw)" "[]"] vf
          show ?thesis by (auto simp: resolveRow_cases)
        qed
      qed
    qed
  next
    case (Inl e)
    note i1 = Inl
    show ?thesis
    proof (cases "nominatimSearch http (buildFreeTextParam rw)")
      case (Inl e')
      with i1 show ?thesis by (simp add: resolveRow_cases mkResult_def)
    next
      case (Inr r2)
      show ?thesis
      proof (cases r2)
        case None
        with i1 Inr show ?thesis by (simp add: resolveRow_cases mkResult_def)
      next
        case (Some f)
        with i1 Inr
          validateFound_coords [of http rw f "(''freetext:'', buildFreeTextParam rw)" "''erro-na-requisicao-structured''"] vf
        show ?thesis by (auto simp: resolveRow_cases)
      qed
    qed
  qed
qed

lemma matching_result_accepted:
  "addressMatchesExpected (Some (addressOrEmpty exampleResult)) (expectedOf rowMatchingHints)"
  by code_simp

lemma matching_row_valid: "status (resolveRow exampleHttp rowMatchingHints) = Valid"
  by (simp add: resolveRow_cases ex_search validateFound_status matching_result_accepted)

theorem status_coordinates_invariant_witness:
  "status (resolveRow exampleHttp rowMatchingHints) = Valid \<and>
   latitude (resolveRow exampleHttp rowMatchingHints) \<noteq> None \<and>
   longitude (resolveRow exampleHttp rowMatchingHints) \<noteq> None"
  using status_coordinates_invariant [of exampleHttp rowMatchingHints] matching_row_valid by simp

section \<open>The corrector\<close>

lemma correctAttempts_length:
  "length (correctAttempts fetch addresses retries attempt) = length addresses"
proof (induction fetch addresses retries attempt rule: correctAttempts.induct)
  case (1 fetch addresses retries attempt)
  show ?case
  proof (cases "attempt < retries")
    case False
    then show ?thesis by (simp add: correctAttempts.simps [of fetch addresses retries attempt])
  next
    case True
    show ?thesis
    proof (cases "fetch (userMessage addresses) attempt")
      case RateLimited
      with True "1.IH"(1) show ?thesis
        by (simp add: correctAttempts.simps [of fetch addresses retries attempt])
    next
      case AiNotOk
      with True show ?thesis by (simp add: correctAttempts.simps [of fetch addresses retries attempt])
    next
      case (AiContent content)
      with True show ?thesis
        by (simp add: correctAttempts.simps [of fetch addresses retries attempt] Let_def)
    next
      case AiThrew
      with True "1.IH"(2) show ?thesis
        by (simp add: correctAttempts.simps [of fetch addresses retries attempt])
    qed
  qed
qed

lemma correctAttempts_retry:
  assumes "attempt < retries" "Suc attempt < retries"
    and "fetch (userMessage addresses) attempt = RateLimited \<or> fetch (userMessage addresses) attempt = AiThrew"
  shows "correctAttempts fetch addresses retries attempt = correctAttempts fetch addresses retries (Suc attempt)"
  using assms by (auto simp: correctAttempts.simps [of fetch addresses retries attempt])

lemma correctAttempts_skip:
  assumes "k < retries"
    and "\<forall>j<k. fetch (userMessage addresses) j = RateLimited \<or> fetch (userMessage addresses) j = AiThrew"
  shows "n \<le> k \<Longrightarrow> correctAttempts fetch addresses retries (k - n) = correctAttempts fetch addresses retries k"
proof (induction n)
  case 0
  then show ?case by simp
next
  case (Suc n)
  then have lt: "k - Suc n < k" and s: "Suc (k - Suc n) = k - n" by simp_all
  from lt assms(1) have "k - Suc n < retries" "Suc (k - Suc n) < retries" by simp_all
  moreover from lt assms(2) have "fetch (userMessage addresses) (k - Suc n) = RateLimited \<or>
      fetch (userMessage addresses) (k - Suc n) = AiThrew" by blast
  ultimately have "correctAttempts fetch addresses retries (k - Suc n) =
      correctAttempts fetch addresses retries (Suc (k - Suc n))"
    by (rule correctAttempts_retry)
  with s Suc show ?case by simp
qed

lemma correctAttempts_mismatch:
  assumes "attempt < retries" "fetch (userMessage addresses) attempt = AiContent (Some t)"
    and "length (parseCorrected (trim t)) \<noteq> length addresses"
  shows "correctAttempts fetch addresses retries attempt = addresses"
  using assms by (simp add: correctAttempts.simps [of fetch addresses retries attempt] Let_def)

text \<open>Some values of the parser: a line that does not start with its number keeps it.\<close>

lemma ex_parse: "parseCorrected (trim ''1. Rua A, 10'') = [''Rua A, 10'']"
  by code_simp

lemma ex_parse2: "parseCorrected (trim (''1. Rua A, 10'' @ [CHR 0x0A] @ [CHR 0x0A] @ '' 2.   Rua B 20  '' @ [CHR 0x0A])) = [''Rua A, 10'', ''2.   Rua B 20'']"
  by code_simp

lemma ex_msg: "userMessage [''Rua A 10'', ''Rua B 20''] = ''Corrija estes endere'' @ [CHR 0xE7] @ ''os brasileiros:'' @ [CHR 0x0A] @ ''1. Rua A 10'' @ [CHR 0x0A] @ ''2. Rua B 20''"
  by code_simp

text \<open>
  \<^bold>\<open>Claim C2.\<close> The list that \<open>correctAddressesBatchWithAI\<close> returns always has the length of
  its input. If the response that is parsed (the first one that is neither a rate limit nor
  an exception, at an attempt \<open>k\<close> below \<open>retries\<close>) holds a number of non-blank lines other
  than the number of input addresses, the input addresses are returned unchanged.
\<close>

theorem count_mismatch_returns_input:
  "length (correctAddressesBatchWithAI fetch addresses retries) = length addresses \<and>
   ((\<forall>j<k. fetch (userMessage addresses) j = RateLimited \<or> fetch (userMessage addresses) j = AiThrew) \<and>
    k < retries \<and> fetch (userMessage addresses) k = AiContent (Some t) \<and>
    length (parseCorrected (trim t)) \<noteq> length addresses
    \<longrightarrow> correctAddressesBatchWithAI fetch addresses retries = addresses)"
proof (intro conjI impI)
  show "length (correctAddressesBatchWithAI fetch addresses retries) = length addresses"
    by (simp add: correctAddressesBatchWithAI_def correctAttempts_length)
next
  assume a: "(\<forall>j<k. fetch (userMessage addresses) j = RateLimited \<or> fetch (userMessage addresses) j = AiThrew) \<and>
    k < retries \<and> fetch (userMessage addresses) k = AiContent (Some t) \<and>
    length (parseCorrected (trim t)) \<noteq> length addresses"
  then have a1: "\<forall>j<k. fetch (userMessage addresses) j = RateLimited \<or> fetch (userMessage addresses) j = AiThrew"
    and a2: "k < retries" and a3: "fetch (userMessage addresses) k = AiContent (Some t)"
    and a4: "length (parseCorrected (trim t)) \<noteq> length addresses"
    by simp_all
  have "correctAttempts fetch addresses retries (k - k) = correctAttempts fetch addresses retries k"
    using a2 a1 by (rule correctAttempts_skip) simp
  moreover have "correctAttempts fetch addresses retries k = addresses"
    using a2 a3 a4 by (rule correctAttempts_mismatch)
  ultimately show "correctAddressesBatchWithAI fetch addresses retries = addresses"
    by (simp add: correctAddressesBatchWithAI_def)
qed

text \<open>The example of the specification: two addresses, one corrected line.\<close>

theorem count_mismatch_returns_input_witness:
  "length (parseCorrected (trim ''1. Rua A, 10'')) \<noteq> length [''Rua A 10'', ''Rua B 20''] \<and>
   correctAddressesBatchWithAI oneLineService [''Rua A 10'', ''Rua B 20''] 3 = [''Rua A 10'', ''Rua B 20'']"
proof -
  have p: "length (parseCorrected (trim ''1. Rua A, 10'')) \<noteq> length [''Rua A 10'', ''Rua B 20'']"
    by (simp add: ex_parse)
  from count_mismatch_returns_input [of oneLineService "[''Rua A 10'', ''Rua B 20'']" 3 0 "''1. Rua A, 10''"] p
  show ?thesis by (simp add: oneLineService_def)
qed


section \<open>Mapping the corrections back to the rows\<close>

lemma batchAddresses_nonBlankRows:
  "batchAddresses ds = map (\<lambda>k. originalAddress' (ds ! k)) (nonBlankRows ds)"
proof -
  have eq: "map originalAddress' ds = map (\<lambda>k. originalAddress' (ds ! k)) [0..<length ds]"
    by (rule nth_equalityI) simp_all
  have "batchAddresses ds =
        filter (\<lambda>a. a \<noteq> []) (map (\<lambda>k. originalAddress' (ds ! k)) [0..<length ds])"
    unfolding batchAddresses_def by (rule arg_cong [OF eq])
  also have "\<dots> = map (\<lambda>k. originalAddress' (ds ! k))
                    (filter ((\<lambda>a. a \<noteq> []) \<circ> (\<lambda>k. originalAddress' (ds ! k))) [0..<length ds])"
    by (rule filter_map)
  finally show ?thesis by (simp add: nonBlankRows_def comp_def)
qed

text \<open>The entry \<open>i\<close> of an increasing selection of positions is at least \<open>i\<close>, and more when a
  position before \<open>i\<close> is left out.\<close>

lemma filter_upt_nth:
  "i < length (filter P [0..<n]) \<Longrightarrow>
   i \<le> filter P [0..<n] ! i \<and> filter P [0..<n] ! i < n \<and>
   ((\<exists>j<i. \<not> P j) \<longrightarrow> i < filter P [0..<n] ! i)"
proof (induction n)
  case 0
  then show ?case by simp
next
  case (Suc n)
  let ?xs = "filter P [0..<n]"
  show ?case
  proof (cases "i < length ?xs")
    case True
    with Suc.IH show ?thesis by (auto simp: nth_append)
  next
    case False
    with Suc.prems have pn: "P n" and i: "i = length ?xs"
      by (auto split: if_splits)
    then have el: "filter P [0..<Suc n] ! i = n" by simp
    have le: "i \<le> n" using i length_filter_le [of P "[0..<n]"] by simp
    have "i < n" if "\<exists>j<i. \<not> P j"
    proof -
      from that obtain j where "j < i" "\<not> P j" by blast
      with le have "j \<in> set [0..<n]" by simp
      then have "length ?xs < length [0..<n]" using \<open>\<not> P j\<close> by (rule length_filter_less)
      with i show ?thesis by simp
    qed
    with el le show ?thesis by simp
  qed
qed

lemma batchCorrections_length: "length (batchCorrections fetch ds) = length (batchAddresses ds)"
  by (simp add: batchCorrections_def Let_def correctAddressesBatchWithAI_def correctAttempts_length)

text \<open>What the handler hands to the row at position \<open>i\<close> of a batch.\<close>

lemma processBatch_nth:
  "i < length batch \<Longrightarrow>
   processBatch ops fetch http batch ! i =
     processRow ops (http i) (batchCorrections fetch (map (extractAddressData ops) batch)) i
       (extractAddressData ops (batch ! i))"
  by (simp add: processBatch_def Let_def nth_enumerate_eq)

text \<open>The callback for a row with an address column: the coordinate validation of the row
  that the address step leaves.\<close>

lemma processRow_steps:
  "foundKey (addressKey d) = Some ak \<Longrightarrow>
   processRow ops http cs i d =
     validateCoordinates ops
       (geocodeAddress ops http (correctionAt cs i (originalAddress' d)) (zipcodeOf ops d))
       (row d) (latKey d) (lonKey d) (updatedRowOf cs i ak d)"
  by (simp add: processRow_def Let_def zipcodeOf_def updatedRowOf_def)

lemma extractAddressData_row: "row (extractAddressData ops r) = r"
  by (simp add: extractAddressData_def Let_def)

text \<open>The address step writes the address column only, and the coordinate validation the
  latitude and longitude columns only.\<close>

lemma updatedRowOf_other:
  "k \<noteq> ak \<Longrightarrow> getProp (updatedRowOf cs i ak d) k = getProp (row d) k"
  by (simp add: updatedRowOf_def getProp_setProp_other getProp_objectEntries)

lemma updatedRowOf_address:
  "getProp (updatedRowOf cs i ak d) ak =
     (if correctionAt cs i (originalAddress' d) \<noteq> originalAddress' d
      then Some (JStr (correctionAt cs i (originalAddress' d))) else getProp (row d) ak)"
  by (simp add: updatedRowOf_def getProp_setProp_same getProp_objectEntries)

lemma validateCoordinates_other:
  "foundKey latK \<noteq> Some k \<Longrightarrow> foundKey lonK \<noteq> Some k \<Longrightarrow>
   getProp (validateCoordinates ops g r latK lonK u) k = getProp u k"
  by (auto simp: validateCoordinates_def Let_def getProp_setProp_other
      split: option.splits prod.splits)

text \<open>
  \<^bold>\<open>Claim C10, as amended.\<close> In the handler, the correction of the row at position \<open>i\<close> of a
  batch is read at index \<open>i\<close> of the answer to the blank-filtered address list. A row without
  an address column is returned as it was received. For a row with an address column, which
  is not also found as its latitude or longitude column, the address cell of the returned row
  holds that correction when it differs from the trimmed address of the row, and is left as
  it was otherwise. When every row of the batch has a non-blank address, entry \<open>i\<close> of the
  filtered list is the address of row \<open>i\<close> itself, so row \<open>i\<close> receives the correction of its
  own address. When a row before position \<open>i\<close> has a blank or missing address and the filtered
  list has more than \<open>i\<close> entries, entry \<open>i\<close> is the address of a later row, so row \<open>i\<close>
  receives the correction computed for that row. In both cases an empty correction leaves the
  address of the row as it is. When the filtered list has at most \<open>i\<close> entries, the index
  reads \<open>undefined\<close> and row \<open>i\<close> keeps its own original address.
\<close>

theorem correction_index_mapping:
  assumes "i < length batch"
    and "ds = map (extractAddressData ops) batch"
    and "cs = batchCorrections fetch ds"
    and "out = processBatch ops fetch http batch"
  shows
   "(foundKey (addressKey (ds ! i)) = None \<longrightarrow> out ! i = batch ! i) \<and>
    (foundKey (addressKey (ds ! i)) = Some ak \<and>
     foundKey (latKey (ds ! i)) \<noteq> Some ak \<and> foundKey (lonKey (ds ! i)) \<noteq> Some ak \<longrightarrow>
       getProp (out ! i) ak =
         (if correctionAt cs i (originalAddress' (ds ! i)) \<noteq> originalAddress' (ds ! i)
          then Some (JStr (correctionAt cs i (originalAddress' (ds ! i))))
          else getProp (batch ! i) ak)) \<and>
    ((\<forall>k<length ds. originalAddress' (ds ! k) \<noteq> []) \<longrightarrow>
       nonBlankRows ds ! i = i \<and> batchAddresses ds ! i = originalAddress' (ds ! i) \<and>
       correctionAt cs i (originalAddress' (ds ! i)) =
         (if cs ! i \<noteq> [] then cs ! i else originalAddress' (ds ! i))) \<and>
    (j < i \<and> originalAddress' (ds ! j) = [] \<and> i < length (batchAddresses ds) \<longrightarrow>
       i < nonBlankRows ds ! i \<and> nonBlankRows ds ! i < length ds \<and>
       batchAddresses ds ! i = originalAddress' (ds ! (nonBlankRows ds ! i)) \<and>
       correctionAt cs i (originalAddress' (ds ! i)) =
         (if cs ! i \<noteq> [] then cs ! i else originalAddress' (ds ! i))) \<and>
    (length (batchAddresses ds) \<le> i \<longrightarrow>
       correctionAt cs i (originalAddress' (ds ! i)) = originalAddress' (ds ! i))"
proof -
  from assms have il: "i < length ds" and di: "ds ! i = extractAddressData ops (batch ! i)"
    by simp_all
  have ri: "row (ds ! i) = batch ! i" by (simp add: di extractAddressData_row)
  have oi: "out ! i = processRow ops (http i) cs i (ds ! i)"
    using assms by (simp add: processBatch_nth)
  have p0: "out ! i = batch ! i" if "foundKey (addressKey (ds ! i)) = None"
    using that by (simp add: oi processRow_def ri)
  have pr: "getProp (out ! i) ak =
         (if correctionAt cs i (originalAddress' (ds ! i)) \<noteq> originalAddress' (ds ! i)
          then Some (JStr (correctionAt cs i (originalAddress' (ds ! i))))
          else getProp (batch ! i) ak)"
    if "foundKey (addressKey (ds ! i)) = Some ak \<and>
        foundKey (latKey (ds ! i)) \<noteq> Some ak \<and> foundKey (lonKey (ds ! i)) \<noteq> Some ak"
    using that
    by (simp add: oi processRow_steps validateCoordinates_other updatedRowOf_address ri)
  have len: "length cs = length (batchAddresses ds)"
    by (simp add: assms(3) batchCorrections_length)
  have p3: "correctionAt cs i (originalAddress' (ds ! i)) =
        (if cs ! i \<noteq> [] then cs ! i else originalAddress' (ds ! i))"
    if "i < length (batchAddresses ds)"
    using that by (simp add: correctionAt_def len)
  have p4: "correctionAt cs i (originalAddress' (ds ! i)) = originalAddress' (ds ! i)"
    if "length (batchAddresses ds) \<le> i"
    using that by (simp add: correctionAt_def len)
  have p1: "nonBlankRows ds ! i = i \<and> batchAddresses ds ! i = originalAddress' (ds ! i) \<and>
       correctionAt cs i (originalAddress' (ds ! i)) =
         (if cs ! i \<noteq> [] then cs ! i else originalAddress' (ds ! i))"
    if a: "\<forall>k<length ds. originalAddress' (ds ! k) \<noteq> []"
  proof -
    from a have nb: "nonBlankRows ds = [0..<length ds]"
      by (simp add: nonBlankRows_def)
    with il have "i < length (batchAddresses ds)" by (simp add: batchAddresses_nonBlankRows)
    with nb il p3 show ?thesis by (simp add: batchAddresses_nonBlankRows)
  qed
  have p2: "i < nonBlankRows ds ! i \<and> nonBlankRows ds ! i < length ds \<and>
      batchAddresses ds ! i = originalAddress' (ds ! (nonBlankRows ds ! i)) \<and>
       correctionAt cs i (originalAddress' (ds ! i)) =
         (if cs ! i \<noteq> [] then cs ! i else originalAddress' (ds ! i))"
    if a: "j < i \<and> originalAddress' (ds ! j) = [] \<and> i < length (batchAddresses ds)"
  proof -
    from a have i: "i < length (nonBlankRows ds)" by (simp add: batchAddresses_nonBlankRows)
    then have "i < length (filter (\<lambda>k. originalAddress' (ds ! k) \<noteq> []) [0..<length ds])"
      by (simp add: nonBlankRows_def)
    from filter_upt_nth [OF this] a
    have "i < nonBlankRows ds ! i \<and> nonBlankRows ds ! i < length ds"
      unfolding nonBlankRows_def by blast
    with i p3 a show ?thesis by (simp add: batchAddresses_nonBlankRows)
  qed
  from p0 pr p1 p2 p4 show ?thesis by blast
qed

lemma address_key_facts:
  "\<not> isArrayIndex ''address''" "isAddressKey ''address''" "\<not> isZipKey ''address''"
  "\<not> isLatKey ''address''" "\<not> isLonKey ''address''"
  "trim ''Rua A'' = ''Rua A''" "trim ''Rua B'' = ''Rua B''"
  by code_simp+

lemma objectKeys_address: "objectKeys [(''address'', v)] = [''address'']"
  by (simp add: objectKeys_def objectEntries_def address_key_facts)

lemma extract_address:
  "extractAddressData ops [(''address'', JStr a)] =
   \<lparr> row = [(''address'', JStr a)], addressKey = Some ''address'', zipKey = None, latKey = None,
     lonKey = None, originalAddress' = trim a \<rparr>"
  by (simp add: extractAddressData_def Let_def objectKeys_address address_key_facts foundKey_def
      getProp_def stringOrEmpty_def trim_Nil)

lemma ex_ds3:
  "map (extractAddressData exampleArith) blankFirstBatch3 =
     [\<lparr> row = [(''address'', JStr [])], addressKey = Some ''address'', zipKey = None, latKey = None,
        lonKey = None, originalAddress' = [] \<rparr>,
      \<lparr> row = [(''address'', JStr ''Rua A'')], addressKey = Some ''address'', zipKey = None, latKey = None,
        lonKey = None, originalAddress' = ''Rua A'' \<rparr>,
      \<lparr> row = [(''address'', JStr ''Rua B'')], addressKey = Some ''address'', zipKey = None, latKey = None,
        lonKey = None, originalAddress' = ''Rua B'' \<rparr>]"
  by (simp add: blankFirstBatch3_def extract_address address_key_facts trim_Nil)

lemma ex_ds2:
  "map (extractAddressData exampleArith) nonBlankBatch =
     [\<lparr> row = [(''address'', JStr ''Rua A'')], addressKey = Some ''address'', zipKey = None, latKey = None,
        lonKey = None, originalAddress' = ''Rua A'' \<rparr>,
      \<lparr> row = [(''address'', JStr ''Rua B'')], addressKey = Some ''address'', zipKey = None, latKey = None,
        lonKey = None, originalAddress' = ''Rua B'' \<rparr>]"
  by (simp add: nonBlankBatch_def extract_address address_key_facts)

lemma cep_key_facts:
  "\<not> isArrayIndex ''cep''" "\<not> isAddressKey ''cep''" "isZipKey ''cep''" "\<not> isLatKey ''cep''"
  "\<not> isLonKey ''cep''"
  by code_simp+

lemma extract_cep:
  "extractAddressData ops [(''cep'', JStr z)] =
   \<lparr> row = [(''cep'', JStr z)], addressKey = None, zipKey = Some ''cep'', latKey = None,
     lonKey = None, originalAddress' = [] \<rparr>"
  by (simp add: extractAddressData_def Let_def objectKeys_def objectEntries_def cep_key_facts foundKey_def)

lemma ex_ds4:
  "map (extractAddressData exampleArith) mixedBatch =
     [\<lparr> row = [(''address'', JStr [])], addressKey = Some ''address'', zipKey = None, latKey = None,
        lonKey = None, originalAddress' = [] \<rparr>,
      \<lparr> row = [(''cep'', JStr ''1'')], addressKey = None, zipKey = Some ''cep'', latKey = None,
        lonKey = None, originalAddress' = [] \<rparr>,
      \<lparr> row = [(''address'', JStr ''Rua A'')], addressKey = Some ''address'', zipKey = None, latKey = None,
        lonKey = None, originalAddress' = ''Rua A'' \<rparr>,
      \<lparr> row = [(''address'', JStr ''Rua B'')], addressKey = Some ''address'', zipKey = None, latKey = None,
        lonKey = None, originalAddress' = ''Rua B'' \<rparr>]"
  by (simp add: mixedBatch_def extract_address extract_cep address_key_facts trim_Nil)

lemma two_line_corrections:
  "batchAddresses ds = [''Rua A'', ''Rua B''] \<Longrightarrow>
   batchCorrections twoLineService ds = [''Rua A, Centro'', ''Rua B, Centro'']"
proof -
  assume b: "batchAddresses ds = [''Rua A'', ''Rua B'']"
  have p: "parseCorrected (trim (''1. Rua A, Centro'' @ [CHR 0x0A] @ ''2. Rua B, Centro'')) =
           [''Rua A, Centro'', ''Rua B, Centro'']" by code_simp
  have t: "trim (''1. Rua A, Centro'' @ [CHR 0x0A] @ ''2. Rua B, Centro'') \<noteq> []" by code_simp
  show ?thesis
    unfolding batchCorrections_def b
    by (simp add: correctAddressesBatchWithAI_def correctAttempts.simps [of _ _ 3 0]
        twoLineService_def p t Let_def del: append.simps)
qed

text \<open>Three batches, with a corrector that answers the two addresses sent.
  \<^item> A blank row, \<open>Rua A\<close> and \<open>Rua B\<close>: the row \<open>Rua A\<close>, at position 1, receives the
    correction computed for \<open>Rua B\<close>, and the row \<open>Rua B\<close>, at position 2, keeps its address.
  \<^item> \<open>Rua A\<close> and \<open>Rua B\<close>: the row at position 1 receives the correction of its own address.
  \<^item> A blank row, a row without an address column, \<open>Rua A\<close> and \<open>Rua B\<close>: the row at position
    1 is returned as it was received.\<close>

theorem correction_index_mapping_witness:
  "originalAddress' (map (extractAddressData exampleArith) blankFirstBatch3 ! 0) = [] \<and>
   nonBlankRows (map (extractAddressData exampleArith) blankFirstBatch3) ! 1 = 2 \<and>
   batchAddresses (map (extractAddressData exampleArith) blankFirstBatch3) ! 1 = ''Rua B'' \<and>
   batchCorrections twoLineService (map (extractAddressData exampleArith) blankFirstBatch3) =
     [''Rua A, Centro'', ''Rua B, Centro''] \<and>
   getProp (processBatch exampleArith twoLineService noGeocoder blankFirstBatch3 ! 1) ''address'' =
     Some (JStr ''Rua B, Centro'') \<and>
   processBatch exampleArith twoLineService noGeocoder blankFirstBatch3 =
     [[(''address'', JStr ''Rua A, Centro'')], [(''address'', JStr ''Rua B, Centro'')],
      [(''address'', JStr ''Rua B'')]] \<and>
   nonBlankRows (map (extractAddressData exampleArith) nonBlankBatch) ! 1 = 1 \<and>
   batchAddresses (map (extractAddressData exampleArith) nonBlankBatch) ! 1 = ''Rua B'' \<and>
   getProp (processBatch exampleArith twoLineService noGeocoder nonBlankBatch ! 1) ''address'' =
     Some (JStr ''Rua B, Centro'') \<and>
   originalAddress' (map (extractAddressData exampleArith) mixedBatch ! 0) = [] \<and>
   nonBlankRows (map (extractAddressData exampleArith) mixedBatch) ! 1 = 3 \<and>
   batchAddresses (map (extractAddressData exampleArith) mixedBatch) ! 1 = ''Rua B'' \<and>
   processBatch exampleArith twoLineService noGeocoder mixedBatch ! 1 = [(''cep'', JStr ''1'')] \<and>
   processBatch exampleArith twoLineService noGeocoder mixedBatch =
     [[(''address'', JStr ''Rua A, Centro'')], [(''cep'', JStr ''1'')], [(''address'', JStr ''Rua A'')],
      [(''address'', JStr ''Rua B'')]]"
proof -
  let ?ds3 = "map (extractAddressData exampleArith) blankFirstBatch3"
  let ?cs3 = "batchCorrections twoLineService ?ds3"
  let ?out3 = "processBatch exampleArith twoLineService noGeocoder blankFirstBatch3"
  have nb3: "nonBlankRows ?ds3 = [1, 2]"
    unfolding ex_ds3 by (simp add: nonBlankRows_def upt_rec)
  have ba3: "batchAddresses ?ds3 = [''Rua A'', ''Rua B'']"
    unfolding ex_ds3 by (simp add: batchAddresses_def)
  have cs3: "?cs3 = [''Rua A, Centro'', ''Rua B, Centro'']" by (rule two_line_corrections [OF ba3])
  have l3: "(1::nat) < length blankFirstBatch3" by (simp add: blankFirstBatch3_def)
  have h3: "(0::nat) < 1 \<and> originalAddress' (?ds3 ! 0) = [] \<and> 1 < length (batchAddresses ?ds3)"
    unfolding ba3 unfolding ex_ds3 by simp
  have k3: "foundKey (addressKey (?ds3 ! 1)) = Some ''address'' \<and>
           foundKey (latKey (?ds3 ! 1)) \<noteq> Some ''address'' \<and>
           foundKey (lonKey (?ds3 ! 1)) \<noteq> Some ''address''"
    unfolding ex_ds3 by (simp add: foundKey_def)
  have o3: "originalAddress' (?ds3 ! 1) = ''Rua A''" unfolding ex_ds3 by simp
  have c3: "correctionAt ?cs3 1 ''Rua A'' = ''Rua B, Centro''"
    unfolding cs3 by (simp add: correctionAt_def)
  have ne3: "''Rua B, Centro'' \<noteq> ''Rua A''" by simp
  from correction_index_mapping [of 1 blankFirstBatch3 ?ds3 exampleArith ?cs3 twoLineService ?out3 noGeocoder
      "''address''" 0, OF l3 refl refl refl] h3 k3
  have t3: "getProp (?out3 ! 1) ''address'' = Some (JStr ''Rua B, Centro'') \<and>
           nonBlankRows ?ds3 ! 1 = 2 \<and> batchAddresses ?ds3 ! 1 = ''Rua B''"
    unfolding o3 c3 nb3 ba3 using ne3 by simp
  have oe: "\<And>v::real option jsval. objectEntries [(''address'', v)] = [(''address'', v)]"
    by (simp add: objectEntries_def address_key_facts)
  have e3: "?out3 = [[(''address'', JStr ''Rua A, Centro'')], [(''address'', JStr ''Rua B, Centro'')],
      [(''address'', JStr ''Rua B'')]]"
    unfolding processBatch_def Let_def cs3 unfolding ex_ds3
    by (simp add: enumerate_eq_zip upt_rec processRow_def foundKey_def correctionAt_def Let_def oe
        validateCoordinates_def)
  let ?ds = "map (extractAddressData exampleArith) nonBlankBatch"
  let ?cs = "batchCorrections twoLineService ?ds"
  let ?out = "processBatch exampleArith twoLineService noGeocoder nonBlankBatch"
  let ?ds4 = "map (extractAddressData exampleArith) mixedBatch"
  let ?cs4 = "batchCorrections twoLineService ?ds4"
  let ?out4 = "processBatch exampleArith twoLineService noGeocoder mixedBatch"
  have ba: "batchAddresses ?ds = [''Rua A'', ''Rua B'']"
    unfolding ex_ds2 by (simp add: batchAddresses_def)
  have cs: "?cs = [''Rua A, Centro'', ''Rua B, Centro'']" by (rule two_line_corrections [OF ba])
  have l: "(1::nat) < length nonBlankBatch" by (simp add: nonBlankBatch_def)
  have a: "\<forall>k<length ?ds. originalAddress' (?ds ! k) \<noteq> []"
    unfolding ex_ds2 by (simp add: less_Suc_eq)
  have k: "foundKey (addressKey (?ds ! 1)) = Some ''address'' \<and>
           foundKey (latKey (?ds ! 1)) \<noteq> Some ''address'' \<and>
           foundKey (lonKey (?ds ! 1)) \<noteq> Some ''address''"
    unfolding ex_ds2 by (simp add: foundKey_def)
  have o: "originalAddress' (?ds ! 1) = ''Rua B''" unfolding ex_ds2 by simp
  have c: "correctionAt ?cs 1 ''Rua B'' = ''Rua B, Centro''"
    unfolding cs by (simp add: correctionAt_def)
  have ne: "''Rua B, Centro'' \<noteq> ''Rua B''" by simp
  from correction_index_mapping [of 1 nonBlankBatch ?ds exampleArith ?cs twoLineService ?out noGeocoder
      "''address''" 0, OF l refl refl refl] a k
  have t: "getProp (?out ! 1) ''address'' = Some (JStr ''Rua B, Centro'') \<and>
           nonBlankRows ?ds ! 1 = 1 \<and> batchAddresses ?ds ! 1 = ''Rua B''"
    unfolding o c using ne by simp
  have ba4: "batchAddresses ?ds4 = [''Rua A'', ''Rua B'']"
    unfolding ex_ds4 by (simp add: batchAddresses_def)
  have nb4: "nonBlankRows ?ds4 = [2, 3]"
    unfolding ex_ds4 by (simp add: nonBlankRows_def upt_rec)
  have cs4: "?cs4 = [''Rua A, Centro'', ''Rua B, Centro'']" by (rule two_line_corrections [OF ba4])
  have l4: "(1::nat) < length mixedBatch" by (simp add: mixedBatch_def)
  have n4: "foundKey (addressKey (?ds4 ! 1)) = None"
    unfolding ex_ds4 by (simp add: foundKey_def)
  have b4: "mixedBatch ! 1 = [(''cep'', JStr ''1'')]" by (simp add: mixedBatch_def)
  have h4: "originalAddress' (?ds4 ! 0) = []" unfolding ex_ds4 by simp
  from correction_index_mapping [of 1 mixedBatch ?ds4 exampleArith ?cs4 twoLineService ?out4 noGeocoder
      "''address''" 0, OF l4 refl refl refl] n4 b4
  have t4: "?out4 ! 1 = [(''cep'', JStr ''1'')]" by simp
  have e4: "?out4 = [[(''address'', JStr ''Rua A, Centro'')], [(''cep'', JStr ''1'')],
      [(''address'', JStr ''Rua A'')], [(''address'', JStr ''Rua B'')]]"
    unfolding processBatch_def Let_def cs4 unfolding ex_ds4
    by (simp add: enumerate_eq_zip upt_rec processRow_def foundKey_def correctionAt_def Let_def oe
        validateCoordinates_def)
  from t3 h3 cs3 e3 t t4 h4 nb4 ba4 e4 show ?thesis by simp
qed

lemma ex_corrections:
  "batchCorrections correctedService (map (extractAddressData exampleArith) blankFirstBatch) = [''Rua A, Centro'']"
proof -
  have p: "parseCorrected (trim ''1. Rua A, Centro'') = [''Rua A, Centro'']" by code_simp
  have t: "trim ''1. Rua A, Centro'' \<noteq> []" by code_simp
  have b: "batchAddresses (map (extractAddressData exampleArith) blankFirstBatch) = [''Rua A'']"
    by (simp add: blankFirstBatch_def extract_address address_key_facts trim_Nil batchAddresses_def)
  show ?thesis
    unfolding batchCorrections_def b
    by (simp add: correctAddressesBatchWithAI_def correctAttempts.simps [of _ _ 3 0]
        correctedService_def p t Let_def)
qed

text \<open>The claim as stated fails for the last rows of a batch with a blank row: in a batch of a
  blank row and \<open>Rua A\<close>, the only correction goes to the blank row, and the row at position 1,
  which has a blank row before it, keeps \<open>Rua A\<close>: it receives no correction at all.\<close>

theorem blank_row_before_keeps_original:
  "map originalAddress' (map (extractAddressData exampleArith) blankFirstBatch) = [[], ''Rua A''] \<and>
   batchCorrections correctedService (map (extractAddressData exampleArith) blankFirstBatch) = [''Rua A, Centro''] \<and>
   processBatch exampleArith correctedService noGeocoder blankFirstBatch =
     [[(''address'', JStr ''Rua A, Centro'')], [(''address'', JStr ''Rua A'')]]"
proof -
  have d: "map (extractAddressData exampleArith) blankFirstBatch =
     [\<lparr> row = [(''address'', JStr [])], addressKey = Some ''address'', zipKey = None, latKey = None,
        lonKey = None, originalAddress' = [] \<rparr>,
      \<lparr> row = [(''address'', JStr ''Rua A'')], addressKey = Some ''address'', zipKey = None, latKey = None,
        lonKey = None, originalAddress' = ''Rua A'' \<rparr>]"
    by (simp add: blankFirstBatch_def extract_address address_key_facts trim_Nil)
  have oe: "\<And>v::real option jsval. objectEntries [(''address'', v)] = [(''address'', v)]"
    by (simp add: objectEntries_def address_key_facts)
  have "processBatch exampleArith correctedService noGeocoder blankFirstBatch =
     [[(''address'', JStr ''Rua A, Centro'')], [(''address'', JStr ''Rua A'')]]"
    unfolding processBatch_def Let_def ex_corrections unfolding d
    by (simp add: enumerate_eq_zip upt_rec processRow_def foundKey_def correctionAt_def Let_def oe
        validateCoordinates_def)
  with ex_corrections show ?thesis unfolding d by simp
qed

section \<open>Coordinate validation\<close>

lemma geocodeAddress_fails:
  "http (geocodeQuery a z) = FetchFailed \<or> http (geocodeQuery a z) = NotOk \<or> http (geocodeQuery a z) = Ok []
   \<Longrightarrow> geocodeAddress ops http a z = None"
  by (auto simp: geocodeAddress_def)

text \<open>The three outcomes of the validation of a row with numeric coordinates.\<close>

lemma validateCoordinates_cases:
  assumes "foundKey latK = Some lk" and "foundKey lonK = Some ok" and "lk \<noteq> ok"
    and "\<not> fisNaN ops (parseFloatOf ops (getProp r lk))"
    and "\<not> fisNaN ops (parseFloatOf ops (getProp r ok))"
  shows "validateCoordinates ops None r latK lonK u = u"
    and "\<not> fgt ops (calculateDistance ops (parseFloatOf ops (getProp r lk)) (parseFloatOf ops (getProp r ok)) glat glon)
        (fnum ops 200) \<Longrightarrow> validateCoordinates ops (Some (glat, glon)) r latK lonK u = u"
    and "fgt ops (calculateDistance ops (parseFloatOf ops (getProp r lk)) (parseFloatOf ops (getProp r ok)) glat glon)
        (fnum ops 200) \<Longrightarrow>
        validateCoordinates ops (Some (glat, glon)) r latK lonK u = setProp ok (JNum glon) (setProp lk (JNum glat) u)"
  using assms by (simp_all add: validateCoordinates_def Let_def)

text \<open>
  \<^bold>\<open>Claim C7, as amended.\<close> For every row carrying numeric latitude and longitude in two
  different columns: when the row has an address column, the coordinate validation overwrites
  the stored coordinates with the geocoded ones, and writes nothing else, if the Haversine
  distance between the stored and the geocoded coordinates, which \<open>calculateDistance\<close> gives
  in meters, exceeds 200 meters; if the distance does not exceed 200 meters, or if the
  geocoding call fails, answers with a status that is not ok or returns no result, the
  validation leaves the row as the address step handed it over, and the stored coordinates are
  unchanged (coordinates in a column other than the address column are those of the row as
  received). A row without an address column is not geocoded and is returned as it was
  received. The geocoded coordinates are those that \<open>geocodeAddress\<close> returns for the corrected
  address and the zip code of the row.
\<close>

theorem coordinates_overwritten_beyond_threshold:
  assumes "foundKey (latKey d) = Some lk" and "foundKey (lonKey d) = Some ok" and "lk \<noteq> ok"
    and "\<not> fisNaN ops (parseFloatOf ops (getProp (row d) lk))"
    and "\<not> fisNaN ops (parseFloatOf ops (getProp (row d) ok))"
  shows
    "(foundKey (addressKey d) = None \<longrightarrow> processRow ops http cs i d = row d) \<and>
     (foundKey (addressKey d) = Some ak \<longrightarrow>
        (geocodeAddress ops http (correctionAt cs i (originalAddress' d)) (zipcodeOf ops d) = Some (glat, glon) \<and>
         fgt ops (calculateDistance ops (parseFloatOf ops (getProp (row d) lk))
                    (parseFloatOf ops (getProp (row d) ok)) glat glon) (fnum ops 200) \<longrightarrow>
           getProp (processRow ops http cs i d) lk = Some (JNum glat) \<and>
           getProp (processRow ops http cs i d) ok = Some (JNum glon) \<and>
           (\<forall>k. k \<noteq> lk \<and> k \<noteq> ok \<longrightarrow>
              getProp (processRow ops http cs i d) k = getProp (updatedRowOf cs i ak d) k)) \<and>
        (geocodeAddress ops http (correctionAt cs i (originalAddress' d)) (zipcodeOf ops d) = Some (glat, glon) \<and>
         \<not> fgt ops (calculateDistance ops (parseFloatOf ops (getProp (row d) lk))
                    (parseFloatOf ops (getProp (row d) ok)) glat glon) (fnum ops 200) \<longrightarrow>
           processRow ops http cs i d = updatedRowOf cs i ak d) \<and>
        (http (geocodeQuery (correctionAt cs i (originalAddress' d)) (zipcodeOf ops d)) = FetchFailed \<or>
         http (geocodeQuery (correctionAt cs i (originalAddress' d)) (zipcodeOf ops d)) = NotOk \<or>
         http (geocodeQuery (correctionAt cs i (originalAddress' d)) (zipcodeOf ops d)) = Ok [] \<longrightarrow>
           processRow ops http cs i d = updatedRowOf cs i ak d) \<and>
        (ak \<noteq> lk \<longrightarrow> getProp (updatedRowOf cs i ak d) lk = getProp (row d) lk) \<and>
        (ak \<noteq> ok \<longrightarrow> getProp (updatedRowOf cs i ak d) ok = getProp (row d) ok))"
proof -
  let ?a = "correctionAt cs i (originalAddress' d)"
  let ?g = "geocodeAddress ops http ?a (zipcodeOf ops d)"
  let ?u = "updatedRowOf cs i ak d"
  note vc = validateCoordinates_cases [OF assms, where u = ?u]
  have none: "processRow ops http cs i d = row d" if "foundKey (addressKey d) = None"
    using that by (simp add: processRow_def)
  have far: "getProp (processRow ops http cs i d) lk = Some (JNum glat) \<and>
             getProp (processRow ops http cs i d) ok = Some (JNum glon) \<and>
             (\<forall>k. k \<noteq> lk \<and> k \<noteq> ok \<longrightarrow> getProp (processRow ops http cs i d) k = getProp ?u k)"
    if "foundKey (addressKey d) = Some ak" and "?g = Some (glat, glon)"
      and "fgt ops (calculateDistance ops (parseFloatOf ops (getProp (row d) lk))
                    (parseFloatOf ops (getProp (row d) ok)) glat glon) (fnum ops 200)"
    using that assms(3) vc(3) [of glat glon]
    by (simp add: processRow_steps getProp_setProp_same getProp_setProp_other)
  have near: "processRow ops http cs i d = ?u"
    if "foundKey (addressKey d) = Some ak" and "?g = Some (glat, glon)"
      and "\<not> fgt ops (calculateDistance ops (parseFloatOf ops (getProp (row d) lk))
                    (parseFloatOf ops (getProp (row d) ok)) glat glon) (fnum ops 200)"
    using that vc(2) [of glat glon] by (simp add: processRow_steps)
  have fails: "processRow ops http cs i d = ?u"
    if "foundKey (addressKey d) = Some ak"
      and "http (geocodeQuery ?a (zipcodeOf ops d)) = FetchFailed \<or>
           http (geocodeQuery ?a (zipcodeOf ops d)) = NotOk \<or>
           http (geocodeQuery ?a (zipcodeOf ops d)) = Ok []"
    using that(1) geocodeAddress_fails [of http ?a "zipcodeOf ops d" ops, OF that(2)] vc(1)
    by (simp add: processRow_steps)
  have stored: "getProp ?u k = getProp (row d) k" if "ak \<noteq> k" for k
    using that by (simp add: updatedRowOf_other)
  show ?thesis
    using none far near fails stored [of lk] stored [of ok] by blast
qed

lemma parse_examples:
  "fparseFloat exampleArith ''0'' = Some 0" "fparseFloat exampleArith ''180'' = Some 180"
proof -
  have "list_all isDigit ''0''" "list_all isDigit ''180''" "indexValue ''0'' = 0" "indexValue ''180'' = 180"
    by code_simp+
  then show "fparseFloat exampleArith ''0'' = Some 0" "fparseFloat exampleArith ''180'' = Some 180"
    by (simp_all add: exampleArith_def)
qed

lemma distance_half_turn_north:
  "calculateDistance exampleArith (Some 0) (Some 0) (Some 180) (Some 0) = Some (6371000 * pi)"
  by (simp add: calculateDistance_def exampleArith_def lift1_def lift2_def Let_def atan2_def)

lemma distance_half_turn_east:
  "calculateDistance exampleArith (Some 0) (Some 0) (Some 0) (Some 180) = Some (6371000 * pi)"
  by (simp add: calculateDistance_def exampleArith_def lift1_def lift2_def Let_def atan2_def)

lemma far_enough: "fgt exampleArith (Some (6371000 * pi)) (fnum exampleArith 200)"
proof -
  have "(200::real) < 6371000 * 2" by simp
  also have "\<dots> \<le> 6371000 * pi" using pi_ge_two by simp
  finally show ?thesis by (simp add: exampleArith_def)
qed

lemma key_facts:
  "\<not> isArrayIndex ''lat''" "\<not> isArrayIndex ''lon''" "\<not> isArrayIndex ''latitude/longitude''"
  "isLatKey ''lat''" "\<not> isLatKey ''lon''" "isLonKey ''lon''" "\<not> isLonKey ''lat''"
  "isLatKey ''latitude/longitude''" "isLonKey ''latitude/longitude''"
  "\<not> isAddressKey ''lat''" "\<not> isAddressKey ''lon''" "\<not> isAddressKey ''latitude/longitude''"
  by code_simp+

lemma latlon_key_facts:
  "\<not> isZipKey ''lat''" "\<not> isZipKey ''lon''" "\<not> isZipKey ''latitude/longitude''"
  by code_simp+

lemma extract_rowAddressLatLon:
  "extractAddressData exampleArith rowAddressLatLon =
   \<lparr> row = rowAddressLatLon, addressKey = Some ''address'', zipKey = None, latKey = Some ''lat'',
     lonKey = Some ''lon'', originalAddress' = ''Rua A'' \<rparr>"
proof -
  have k: "objectKeys rowAddressLatLon = [''address'', ''lat'', ''lon'']"
    by (simp add: objectKeys_def objectEntries_def rowAddressLatLon_def key_facts address_key_facts)
  have a: "getProp rowAddressLatLon ''address'' = Some (JStr ''Rua A'')"
    by (simp add: getProp_def rowAddressLatLon_def)
  show ?thesis
    by (simp add: extractAddressData_def Let_def k a key_facts address_key_facts latlon_key_facts
        foundKey_def stringOrEmpty_def)
qed

lemma extract_rowAddressCombined:
  "extractAddressData exampleArith rowAddressCombined =
   \<lparr> row = rowAddressCombined, addressKey = Some ''address'', zipKey = None,
     latKey = Some ''latitude/longitude'', lonKey = Some ''latitude/longitude'',
     originalAddress' = ''Rua A'' \<rparr>"
proof -
  have k: "objectKeys rowAddressCombined = [''address'', ''latitude/longitude'']"
    by (simp add: objectKeys_def objectEntries_def rowAddressCombined_def key_facts address_key_facts)
  have a: "getProp rowAddressCombined ''address'' = Some (JStr ''Rua A'')"
    by (simp add: getProp_def rowAddressCombined_def)
  show ?thesis
    by (simp add: extractAddressData_def Let_def k a key_facts address_key_facts latlon_key_facts
        foundKey_def stringOrEmpty_def)
qed

lemma unavailable_corrections:
  "batchAddresses ds \<noteq> [] \<Longrightarrow> batchCorrections unavailableService ds = batchAddresses ds"
  by (simp add: batchCorrections_def Let_def correctAddressesBatchWithAI_def
      correctAttempts.simps [of _ _ 3 0] unavailableService_def)

text \<open>A row with an address, latitude 0 and longitude 0, a corrector that is not available
  and a geocoder that answers latitude 180 and longitude 0, half a turn away: both cells are
  overwritten.\<close>

theorem coordinates_overwritten_beyond_threshold_witness:
  "foundKey (addressKey (extractAddressData exampleArith rowAddressLatLon)) = Some ''address'' \<and>
   foundKey (latKey (extractAddressData exampleArith rowAddressLatLon)) = Some ''lat'' \<and>
   foundKey (lonKey (extractAddressData exampleArith rowAddressLatLon)) = Some ''lon'' \<and>
   geocodeAddress exampleArith farGeocoder ''Rua A'' None = Some (Some 180, Some 0) \<and>
   getProp (processRow exampleArith farGeocoder [''Rua A''] 0
              (extractAddressData exampleArith rowAddressLatLon)) ''lat'' = Some (JNum (Some 180)) \<and>
   getProp (processRow exampleArith farGeocoder [''Rua A''] 0
              (extractAddressData exampleArith rowAddressLatLon)) ''lon'' = Some (JNum (Some 0)) \<and>
   processBatch exampleArith unavailableService (\<lambda>i. farGeocoder) [rowAddressLatLon] =
     [[(''address'', JStr ''Rua A''), (''lat'', JNum (Some 180)), (''lon'', JNum (Some 0))]]"
proof -
  let ?d = "extractAddressData exampleArith rowAddressLatLon"
  have k: "foundKey (latKey ?d) = Some ''lat''" "foundKey (lonKey ?d) = Some ''lon''"
    and ak: "foundKey (addressKey ?d) = Some ''address''"
    by (simp_all add: extract_rowAddressLatLon foundKey_def)
  have ne: "''lat'' \<noteq> ''lon''" by simp
  have p: "parseFloatOf exampleArith (getProp (row ?d) ''lat'') = Some 0"
    "parseFloatOf exampleArith (getProp (row ?d) ''lon'') = Some 0"
    by (simp_all add: extractAddressData_row parseFloatOf_def rowAddressLatLon_def getProp_def parse_examples)
  have n: "\<not> fisNaN exampleArith (parseFloatOf exampleArith (getProp (row ?d) ''lat''))"
    "\<not> fisNaN exampleArith (parseFloatOf exampleArith (getProp (row ?d) ''lon''))"
    unfolding p by (simp_all add: exampleArith_def)
  have c: "correctionAt [''Rua A''] 0 (originalAddress' ?d) = ''Rua A''"
    by (simp add: correctionAt_def)
  have z: "zipcodeOf exampleArith ?d = None"
    by (simp add: zipcodeOf_def extract_rowAddressLatLon foundKey_def)
  have g: "geocodeAddress exampleArith farGeocoder ''Rua A'' None = Some (Some 180, Some 0)"
    by (simp add: geocodeAddress_def farGeocoder_def parse_examples)
  from coordinates_overwritten_beyond_threshold [of ?d "''lat''" "''lon''" exampleArith farGeocoder "[''Rua A'']" 0 "''address''"
      "Some 180" "Some 0", OF k ne n]
    ak c z g p distance_half_turn_north far_enough
  have t: "getProp (processRow exampleArith farGeocoder [''Rua A''] 0 ?d) ''lat'' = Some (JNum (Some 180)) \<and>
           getProp (processRow exampleArith farGeocoder [''Rua A''] 0 ?d) ''lon'' = Some (JNum (Some 0))"
    by simp
  have b: "batchAddresses [?d] = [''Rua A'']"
    by (simp add: batchAddresses_def extract_rowAddressLatLon)
  have oe: "objectEntries rowAddressLatLon = rowAddressLatLon"
    by (simp add: objectEntries_def rowAddressLatLon_def key_facts address_key_facts)
  have q: "parseFloatOf exampleArith (getProp rowAddressLatLon ''lat'') = Some 0"
    "parseFloatOf exampleArith (getProp rowAddressLatLon ''lon'') = Some 0"
    using p by (simp_all add: extractAddressData_row)
  have fk: "foundKey (Some ''lat'') = Some ''lat''" "foundKey (Some ''lon'') = Some ''lon''"
    "foundKey (Some ''address'') = Some ''address''" "foundKey None = None"
    by (simp_all add: foundKey_def)
  have nn: "\<not> fisNaN exampleArith (Some 0)" by (simp add: exampleArith_def)
  have v: "validateCoordinates exampleArith (Some (Some 180, Some 0)) rowAddressLatLon (Some ''lat'')
             (Some ''lon'') rowAddressLatLon =
           [(''address'', JStr ''Rua A''), (''lat'', JNum (Some 180)), (''lon'', JNum (Some 0))]"
    using q nn distance_half_turn_north far_enough
    by (simp add: validateCoordinates_def fk Let_def) (simp add: rowAddressLatLon_def)
  have "processBatch exampleArith unavailableService (\<lambda>i. farGeocoder) [rowAddressLatLon] =
     [[(''address'', JStr ''Rua A''), (''lat'', JNum (Some 180)), (''lon'', JNum (Some 0))]]"
    by (simp add: processBatch_def Let_def unavailable_corrections b enumerate_eq_zip)
       (simp add: processRow_def extract_rowAddressLatLon fk correctionAt_def Let_def oe g v)
  with t ak k g show ?thesis by simp
qed

text \<open>The claim as stated fails for a row with an address column whose single column
  \<open>latitude/longitude\<close> is found both as the latitude and as the longitude column: the stored
  coordinates are \<open>(0, 0)\<close>, the geocoded ones \<open>(0, 180)\<close>, the distance exceeds 200 meters,
  both assignments go to the same property, and the handler returns the row with the geocoded
  longitude, 180, where the geocoded latitude, 0, is claimed.\<close>

theorem combined_column_gets_longitude:
  "find isAddressKey (objectKeys rowAddressCombined) = Some ''address'' \<and>
   find isLatKey (objectKeys rowAddressCombined) = Some ''latitude/longitude'' \<and>
   find isLonKey (objectKeys rowAddressCombined) = Some ''latitude/longitude'' \<and>
   parseFloatOf exampleArith (getProp rowAddressCombined ''latitude/longitude'') = Some 0 \<and>
   geocodeAddress exampleArith farEastGeocoder ''Rua A'' None = Some (Some 0, Some 180) \<and>
   fgt exampleArith (calculateDistance exampleArith (Some 0) (Some 0) (Some 0) (Some 180)) (fnum exampleArith 200) \<and>
   processBatch exampleArith unavailableService (\<lambda>i. farEastGeocoder) [rowAddressCombined] =
     [[(''address'', JStr ''Rua A''), (''latitude/longitude'', JNum (Some 180))]]"
proof -
  let ?d = "extractAddressData exampleArith rowAddressCombined"
  have keys: "objectKeys rowAddressCombined = [''address'', ''latitude/longitude'']"
    by (simp add: objectKeys_def objectEntries_def rowAddressCombined_def key_facts address_key_facts)
  have g: "geocodeAddress exampleArith farEastGeocoder ''Rua A'' None = Some (Some 0, Some 180)"
    by (simp add: geocodeAddress_def farEastGeocoder_def parse_examples)
  have p: "parseFloatOf exampleArith (getProp rowAddressCombined ''latitude/longitude'') = Some 0"
    by (simp add: parseFloatOf_def rowAddressCombined_def getProp_def parse_examples)
  have nn: "\<not> fisNaN exampleArith (Some 0)" by (simp add: exampleArith_def)
  have fk: "foundKey (Some ''latitude/longitude'') = Some ''latitude/longitude''"
    "foundKey (Some ''address'') = Some ''address''" "foundKey None = None"
    by (simp_all add: foundKey_def)
  have b: "batchAddresses [?d] = [''Rua A'']"
    by (simp add: batchAddresses_def extract_rowAddressCombined)
  have oe: "objectEntries rowAddressCombined = rowAddressCombined"
    by (simp add: objectEntries_def rowAddressCombined_def key_facts address_key_facts)
  have v: "validateCoordinates exampleArith (Some (Some 0, Some 180)) rowAddressCombined
             (Some ''latitude/longitude'') (Some ''latitude/longitude'') rowAddressCombined =
           [(''address'', JStr ''Rua A''), (''latitude/longitude'', JNum (Some 180))]"
    using p nn distance_half_turn_east far_enough
    by (simp add: validateCoordinates_def fk Let_def) (simp add: rowAddressCombined_def)
  have "processBatch exampleArith unavailableService (\<lambda>i. farEastGeocoder) [rowAddressCombined] =
     [[(''address'', JStr ''Rua A''), (''latitude/longitude'', JNum (Some 180))]]"
    by (simp add: processBatch_def Let_def unavailable_corrections b enumerate_eq_zip)
       (simp add: processRow_def extract_rowAddressCombined fk correctionAt_def Let_def oe g v)
  with g p keys far_enough show ?thesis
    by (simp add: key_facts address_key_facts distance_half_turn_east)
qed

section \<open>The distance in exact arithmetic\<close>








end
